theory Spec2Isabelle
  imports Complex_Main
begin

section \<open>JavaScript strings\<close>

text \<open>
  A JavaScript string is modelled as a \<^typ>\<open>string\<close> whose characters are the code units
  0..255 (the ISO-8859-1 range). On that range \<open>String.prototype.trim\<close> strips
  the code units 9..13, 32 and 160, the class \<open>\s\<close> of a regular expression is the
  same set, \<open>\d\<close> is \<open>0-9\<close>, and \<open>toLowerCase\<close> maps \<open>A-Z\<close> and the
  accented capitals 192..222 (without 215) to the code unit 32 above.
\<close>

definition isWhitespace :: "char \<Rightarrow> bool" where
  "isWhitespace c = ((of_char c :: nat) \<in> {9, 10, 11, 12, 13, 32, 160})"

definition isDigit :: "char \<Rightarrow> bool" where
  "isDigit c = (c \<in> set ''0123456789'')"

definition isHexDigit :: "char \<Rightarrow> bool" where
  "isHexDigit c = (c \<in> set ''0123456789abcdefABCDEF'')"

definition trim :: "string \<Rightarrow> string" where
  "trim s = rev (dropWhile isWhitespace (rev (dropWhile isWhitespace s)))"

definition toLowerCaseChar :: "char \<Rightarrow> char" where
  "toLowerCaseChar c =
     (let n = (of_char c :: nat)
      in if (65 \<le> n \<and> n \<le> 90) \<or> (192 \<le> n \<and> n \<le> 222 \<and> n \<noteq> 215)
         then char_of (n + 32) else c)"

definition toLowerCase :: "string \<Rightarrow> string" where
  "toLowerCase s = map toLowerCaseChar s"

fun startsWith :: "string \<Rightarrow> string \<Rightarrow> bool" where
  "startsWith s [] = True"
| "startsWith [] (p # ps) = False"
| "startsWith (c # cs) (p # ps) = (c = p \<and> startsWith cs ps)"

fun includesStr :: "string \<Rightarrow> string \<Rightarrow> bool" where
  "includesStr [] p = (p = [])"
| "includesStr (c # cs) p = (startsWith (c # cs) p \<or> includesStr cs p)"

text \<open>\<open>parseInt(s)\<close> and \<open>parseInt(s, 16)\<close> on a string that a regular expression has
  already restricted to digits, as the natural number the digits denote. That is the
  value of the source as long as it is below \<open>2^53\<close>, where a JavaScript number
  still holds every integer; above, the source rounds to the nearest double, and to
  \<open>Infinity\<close> for very long digit strings. What is proved about the values of
  channels is stated for channels below \<open>2^53\<close> (\<open>exactChannels\<close>).\<close>

definition digitValue :: "char \<Rightarrow> nat" where
  "digitValue c =
     (if isDigit c then of_char c - 48
      else if c \<in> set ''abcdef'' then of_char c - 87
      else of_char c - 55)"

definition parseInt :: "string \<Rightarrow> nat" where
  "parseInt s = foldl (\<lambda>acc c. acc * 10 + digitValue c) 0 s"

definition parseInt16 :: "string \<Rightarrow> nat" where
  "parseInt16 s = foldl (\<lambda>acc c. acc * 16 + digitValue c) 0 s"

section \<open>Colour model\<close>

datatype rgb = RGB nat nat nat

text \<open>
  What \<open>parseColor\<close> hands back at run time when it is not \<open>null\<close>: an
  \<open>{r, g, b}\<close> object, or, because \<open>namedColors\<close> is a plain object literal read
  with \<open>namedColors[key]\<close>, a member inherited from \<open>Object.prototype\<close>. The
  only inherited keys written entirely in lower case, hence the only ones a lower-cased
  key can hit, are \<open>constructor\<close> and \<open>__proto__\<close>.
\<close>

datatype js_colour = Colour rgb | Inherited string

text \<open>\<open>/^#?([a-f\d]{2})([a-f\d]{2})([a-f\d]{2})$/i\<close>: an optional hash, then six
  hexadecimal digits up to the end of the input.\<close>

definition hexToRgb :: "string \<Rightarrow> rgb option" where
  "hexToRgb hex =
     (let body = (case hex of c # t \<Rightarrow> if c = CHR ''#'' then t else hex | [] \<Rightarrow> hex)
      in if length body = 6 \<and> list_all isHexDigit body
         then Some (RGB (parseInt16 (take 2 body))
                        (parseInt16 (take 2 (drop 2 body)))
                        (parseInt16 (take 2 (drop 4 body))))
         else None)"


definition getLuminance :: "nat \<Rightarrow> nat \<Rightarrow> nat \<Rightarrow> real" where
  "getLuminance r g b =
     (let sR = real r / 255; sG = real g / 255; sB = real b / 255;
          R = (if sR \<le> 0.03928 then sR / 12.92 else ((sR + 0.055) / 1.055) powr 2.4);
          G = (if sG \<le> 0.03928 then sG / 12.92 else ((sG + 0.055) / 1.055) powr 2.4);
          B = (if sB \<le> 0.03928 then sB / 12.92 else ((sB + 0.055) / 1.055) powr 2.4)
      in 0.2126 * R + 0.7152 * G + 0.0722 * B)"

fun getContrastRatio :: "rgb \<Rightarrow> rgb \<Rightarrow> real" where
  "getContrastRatio (RGB r1 g1 b1) (RGB r2 g2 b2) =
     (let lum1 = getLuminance r1 g1 b1;
          lum2 = getLuminance r2 g2 b2;
          brightest = max lum1 lum2;
          darkest = min lum1 lum2
      in (brightest + 0.05) / (darkest + 0.05))"

declare getContrastRatio.simps [simp del]




text \<open>
  \<open>/rgb\((\d+),\s*(\d+),\s*(\d+)\)/\<close> tried at the start of a string. Digits, commas
  and white space are disjoint classes, so the greedy quantifiers never give anything
  back. The result is the three groups and the text left after the closing parenthesis.
\<close>

definition digitsThen :: "string \<Rightarrow> (string \<times> string) option" where
  "digitsThen s =
     (let d = takeWhile isDigit s
      in if d = [] then None else Some (d, dropWhile isDigit s))"

definition expect :: "char \<Rightarrow> string \<Rightarrow> string option" where
  "expect c s = (case s of x # t \<Rightarrow> if x = c then Some t else None | [] \<Rightarrow> None)"

definition matchRgbHere :: "string \<Rightarrow> ((string \<times> string \<times> string) \<times> string) option" where
  "matchRgbHere s =
     (if startsWith s ''rgb(''
      then Option.bind (digitsThen (drop 4 s)) (\<lambda>(d1, s1).
           Option.bind (expect (CHR '','') s1) (\<lambda>s2.
           Option.bind (digitsThen (dropWhile isWhitespace s2)) (\<lambda>(d2, s3).
           Option.bind (expect (CHR '','') s3) (\<lambda>s4.
           Option.bind (digitsThen (dropWhile isWhitespace s4)) (\<lambda>(d3, s5).
           Option.bind (expect (CHR '')'') s5) (\<lambda>s6. Some ((d1, d2, d3), s6)))))))
      else None)"

text \<open>\<open>String.prototype.match\<close> with an unanchored expression: the leftmost position
  at which the expression matches.\<close>

fun searchRgb :: "string \<Rightarrow> (string \<times> string \<times> string) option" where
  "searchRgb [] = None"
| "searchRgb (c # t) =
     (case matchRgbHere (c # t) of
        Some (m, rest) \<Rightarrow> Some m
      | None \<Rightarrow> searchRgb t)"

definition namedColors :: "(string \<times> rgb) list" where
  "namedColors =
     [(''black'', RGB 0 0 0),
      (''white'', RGB 255 255 255),
      (''red'', RGB 255 0 0),
      (''green'', RGB 0 128 0),
      (''blue'', RGB 0 0 255),
      (''yellow'', RGB 255 255 0),
      (''gray'', RGB 128 128 128),
      (''grey'', RGB 128 128 128)]"

definition objectPrototypeKeys :: "string list" where
  "objectPrototypeKeys = [''constructor'', ''__proto__'']"

text \<open>\<open>namedColors[key] || null\<close>: an own property first, then the prototype chain.\<close>

definition namedColorsLookup :: "string \<Rightarrow> js_colour option" where
  "namedColorsLookup key =
     (case map_of namedColors key of
        Some c \<Rightarrow> Some (Colour c)
      | None \<Rightarrow> if key \<in> set objectPrototypeKeys then Some (Inherited key) else None)"

definition parseColor :: "string \<Rightarrow> js_colour option" where
  "parseColor colorStr =
     (if startsWith colorStr ''#'' then map_option Colour (hexToRgb colorStr)
      else case (if startsWith colorStr ''rgb'' then searchRgb colorStr else None) of
             Some (m1, m2, m3) \<Rightarrow> Some (Colour (RGB (parseInt m1) (parseInt m2) (parseInt m3)))
           | None \<Rightarrow> namedColorsLookup (toLowerCase colorStr))"





section \<open>Document tree\<close>

text \<open>
  The DOM as the engine reads it: elements with a local name (lower case, as the HTML
  parser leaves it; \<open>tagName.toLowerCase()\<close> returns it), attributes in source
  order with lower-case names, and child nodes; text nodes carry character data.
  Comments and other nodes are invisible to every query made here and are left out.
  \<open>document.documentElement\<close> is \<open>null\<close> for a document without a root.
\<close>

datatype node = Element string "(string \<times> string) list" "node list" | Text string

datatype document = Document "node option"

fun documentElement :: "document \<Rightarrow> node option" where
  "documentElement (Document e) = e"

fun localName :: "node \<Rightarrow> string" where
  "localName (Element n as cs) = n"
| "localName (Text s) = []"

fun attributes :: "node \<Rightarrow> (string \<times> string) list" where
  "attributes (Element n as cs) = as"
| "attributes (Text s) = []"

fun childNodes :: "node \<Rightarrow> node list" where
  "childNodes (Element n as cs) = cs"
| "childNodes (Text s) = []"

definition getAttribute :: "node \<Rightarrow> string \<Rightarrow> string option" where
  "getAttribute e name = map_of (attributes e) name"

definition hasAttribute :: "node \<Rightarrow> string \<Rightarrow> bool" where
  "hasAttribute e name = (getAttribute e name \<noteq> None)"

fun textContent :: "node \<Rightarrow> string" where
  "textContent (Text s) = s"
| "textContent (Element n as cs) = concat (map textContent cs)"

text \<open>The elements of a subtree in document order (depth first, pre-order), the root
  of the subtree first.\<close>

fun elementsOf :: "node \<Rightarrow> node list" where
  "elementsOf (Text s) = []"
| "elementsOf (Element n as cs) = Element n as cs # concat (map elementsOf cs)"

text \<open>
  The selectors the engine uses are groups of compound selectors of three shapes:
  \<open>tag\<close>, \<open>tag[attr]\<close> and \<open>tag[attr="value"]\<close>. In an HTML document the
  value of a \<open>type\<close> attribute is compared without regard to ASCII case; the values
  of \<open>name\<close> and \<open>for\<close> are compared exactly.
\<close>

datatype selector = Tag string | TagAttr string string | TagAttrEq string string string

fun matches :: "selector \<Rightarrow> node \<Rightarrow> bool" where
  "matches (Tag t) e = (localName e = t)"
| "matches (TagAttr t a) e = (localName e = t \<and> hasAttribute e a)"
| "matches (TagAttrEq t a v) e =
     (localName e = t \<and>
      (case getAttribute e a of
         None \<Rightarrow> False
       | Some x \<Rightarrow> if a = ''type'' then toLowerCase x = toLowerCase v else x = v))"

definition matchesAny :: "selector list \<Rightarrow> node \<Rightarrow> bool" where
  "matchesAny sels e = list_ex (\<lambda>s. matches s e) sels"

definition querySelectorAll :: "document \<Rightarrow> selector list \<Rightarrow> node list" where
  "querySelectorAll doc sels =
     (case documentElement doc of
        None \<Rightarrow> []
      | Some html \<Rightarrow> filter (matchesAny sels) (elementsOf html))"

definition querySelector :: "document \<Rightarrow> selector list \<Rightarrow> node option" where
  "querySelector doc sels =
     (case querySelectorAll doc sels of [] \<Rightarrow> None | e # es \<Rightarrow> Some e)"

text \<open>\<open>element.querySelectorAll\<close> and \<open>element.querySelector\<close> search the
  descendants of the element, not the element itself.\<close>

definition elementQuerySelectorAll :: "node \<Rightarrow> selector list \<Rightarrow> node list" where
  "elementQuerySelectorAll e sels =
     filter (matchesAny sels) (concat (map elementsOf (childNodes e)))"

definition elementQuerySelector :: "node \<Rightarrow> selector list \<Rightarrow> node option" where
  "elementQuerySelector e sels =
     (case elementQuerySelectorAll e sels of [] \<Rightarrow> None | x # xs \<Rightarrow> Some x)"

section \<open>JavaScript values\<close>

text \<open>A value of type \<open>string | null\<close> (or \<open>string | undefined\<close>) is a
  \<^typ>\<open>string option\<close>; it is truthy when it is a non-empty string, and \<open>a || b\<close>
  is \<open>a\<close> when \<open>a\<close> is truthy and \<open>b\<close> otherwise.\<close>

fun truthy :: "string option \<Rightarrow> bool" where
  "truthy None = False"
| "truthy (Some s) = (s \<noteq> [])"

definition orElse :: "string option \<Rightarrow> string option \<Rightarrow> string option" where
  "orElse a b = (if truthy a then a else b)"

text \<open>A number in a template literal, for the natural numbers that occur here.\<close>

fun showNat :: "nat \<Rightarrow> string" where
  "showNat n =
     (if n < 10 then [char_of (48 + n)]
      else showNat (n div 10) @ [char_of (48 + n mod 10)])"

declare showNat.simps [simp del]

text \<open>\<open>Number.prototype.toFixed(2)\<close> for a non-negative number: the nearest multiple
  of one hundredth, the larger one on a tie.\<close>

definition toFixed2 :: "real \<Rightarrow> string" where
  "toFixed2 x =
     (let n = nat \<lfloor>x * 100 + 1 / 2\<rfloor>
      in showNat (n div 100) @ ''.'' @ showNat (n div 10 mod 10) @ showNat (n mod 10))"

section \<open>Results\<close>

text \<open>
  The \<open>html\<close> field of a finding is text produced by the DOM library's serialiser.
  The model records which element is serialised and how the engine cuts the text:
  whole, cut to a number of characters and followed by an ellipsis, cut after the first
  \<open>>\<close>, or a literal written in the source.
\<close>

datatype markup =
    OuterHTML node
  | OuterHTMLSubstring node nat
  | OuterHTMLUpToGt node
  | Literal string

record AccessibilityNode =
  html :: markup
  target :: "string list"
  failureSummary :: string

record AccessibilityViolation =
  vId :: string
  impact :: string
  description :: string
  helpText :: string
  helpUrl :: string
  tags :: "string list"
  nodes :: "AccessibilityNode list"

record AccessibilityPass =
  pId :: string
  pDescription :: string
  pHelp :: string

record AccessibilityResult =
  violations :: "AccessibilityViolation list"
  passes :: "AccessibilityPass list"
  incomplete :: "AccessibilityViolation list"

text \<open>\<open>nth-child(${index + 1})\<close> after a tag name.\<close>

definition nthChild :: "string \<Rightarrow> nat \<Rightarrow> string" where
  "nthChild tag index = tag @ '':nth-child('' @ showNat (index + 1) @ '')''"

text \<open>\<open>if (nodes.length > 0) violations.push({...})\<close>.\<close>

definition pushIf :: "AccessibilityNode list \<Rightarrow> AccessibilityViolation \<Rightarrow> AccessibilityViolation list" where
  "pushIf ns v = (if length ns > 0 then [v] else [])"

section \<open>Check 1: images\<close>

definition images :: "document \<Rightarrow> node list" where
  "images doc = querySelectorAll doc [Tag ''img'']"

definition imagesWithoutAlt :: "document \<Rightarrow> AccessibilityNode list" where
  "imagesWithoutAlt doc =
     map (\<lambda>(index, img).
            \<lparr>html = OuterHTML img,
             target = [nthChild ''img'' index],
             failureSummary = ''Image does not have an alt attribute''\<rparr>)
         (filter (\<lambda>(index, img). getAttribute img ''alt'' = None)
                 (enumerate 0 (images doc)))"

text \<open>Filled by the source and read by nothing.\<close>

definition decorativeImages :: "document \<Rightarrow> AccessibilityNode list" where
  "decorativeImages doc =
     map (\<lambda>(index, img).
            \<lparr>html = OuterHTML img,
             target = [nthChild ''img'' index],
             failureSummary =
               ''Image appears to be decorative but lacks role='' @ [CHR 0x22] @
               ''presentation'' @ [CHR 0x22]\<rparr>)
         (filter (\<lambda>(index, img).
                    getAttribute img ''alt'' = Some [] \<and>
                    getAttribute img ''role'' \<noteq> Some ''presentation'')
                 (enumerate 0 (images doc)))"

definition imageViolations :: "document \<Rightarrow> AccessibilityViolation list" where
  "imageViolations doc =
     pushIf (imagesWithoutAlt doc)
       \<lparr>vId = ''image-alt'',
        impact = ''critical'',
        description = ''Images must have alternative text'',
        helpText = ''Images must have alternate text'',
        helpUrl = ''https://webaim.org/techniques/alttext/'',
        tags = [''wcag2a'', ''wcag111'', ''cat.text-alternatives''],
        nodes = imagesWithoutAlt doc\<rparr>"

section \<open>Check 2: form controls\<close>

definition formElements :: "document \<Rightarrow> node list" where
  "formElements doc = querySelectorAll doc [Tag ''input'', Tag ''textarea'', Tag ''select'']"

text \<open>\<open>element.getAttribute('type') || 'text'\<close>.\<close>

definition inputType :: "node \<Rightarrow> string" where
  "inputType e =
     (case getAttribute e ''type'' of
        None \<Rightarrow> ''text''
      | Some t \<Rightarrow> if t = [] then ''text'' else t)"

definition skippedType :: "node \<Rightarrow> bool" where
  "skippedType e =
     (inputType e \<in> set [''hidden'', ''submit'', ''button'', ''reset'', ''image''])"

text \<open>
  The label of a control is looked up with the selector text
  \<open>label[for="${id}"]\<close>, the id pasted between double quotes. When the id holds
  none of the characters that end or escape a CSS string (the double quote, the
  backslash, a line break, a form feed, a null), the selector is \<open>label\<close> with the
  \<open>for\<close> attribute equal to the id, and the lookup is computed here. For any other
  id the text is read by the selector engine of the DOM library, which is not part of
  the repository: it may unescape the id, run a different selector, or throw a
  \<open>SyntaxError\<close>. Its answer is a parameter of the engine: for a document and an
  id, \<open>None\<close> when it throws, and otherwise the element it returns, if any.
\<close>

type_synonym selectorEngine = "document \<Rightarrow> string \<Rightarrow> node option option"

definition cssStringSafe :: "string \<Rightarrow> bool" where
  "cssStringSafe s =
     (\<not> list_ex (\<lambda>c. c \<in> set [CHR 0x22, CHR 0x5C, CHR 0x0A, CHR 0x0D, CHR 0x0C, CHR 0x00]) s)"

definition labelFor :: "document \<Rightarrow> string \<Rightarrow> node option" where
  "labelFor doc i = querySelector doc [TagAttrEq ''label'' ''for'' i]"

text \<open>\<open>document.querySelector(`label[for="${id}"]`)\<close>.\<close>

definition labelLookup :: "selectorEngine \<Rightarrow> document \<Rightarrow> string \<Rightarrow> node option option" where
  "labelLookup q doc i = (if cssStringSafe i then Some (labelFor doc i) else q doc i)"

text \<open>\<open>id && document.querySelector(...)\<close>, in a boolean position.\<close>

definition hasLabel :: "selectorEngine \<Rightarrow> document \<Rightarrow> node \<Rightarrow> bool" where
  "hasLabel q doc e =
     (case getAttribute e ''id'' of
        None \<Rightarrow> False
      | Some i \<Rightarrow>
          i \<noteq> [] \<and>
          (case labelLookup q doc i of Some (Some label) \<Rightarrow> True | _ \<Rightarrow> False))"

definition unlabelled :: "selectorEngine \<Rightarrow> document \<Rightarrow> node \<Rightarrow> bool" where
  "unlabelled q doc e =
     (\<not> hasLabel q doc e \<and> \<not> truthy (getAttribute e ''aria-label'') \<and>
      \<not> truthy (getAttribute e ''aria-labelledby''))"

definition elementsWithoutLabels :: "selectorEngine \<Rightarrow> document \<Rightarrow> AccessibilityNode list" where
  "elementsWithoutLabels q doc =
     map (\<lambda>(index, element).
            \<lparr>html = OuterHTML element,
             target = [nthChild (localName element) index],
             failureSummary = localName element @ '' element does not have an accessible label''\<rparr>)
         (filter (\<lambda>(index, element). \<not> skippedType element \<and> unlabelled q doc element)
                 (enumerate 0 (formElements doc)))"

definition elementsWithPoorLabels :: "selectorEngine \<Rightarrow> document \<Rightarrow> AccessibilityNode list" where
  "elementsWithPoorLabels q doc =
     map (\<lambda>(index, element).
            \<lparr>html = OuterHTML element,
             target = [nthChild (localName element) index],
             failureSummary = ''Form element relies only on placeholder text for labeling''\<rparr>)
         (filter (\<lambda>(index, element).
                    \<not> skippedType element \<and> truthy (getAttribute element ''placeholder'') \<and>
                    unlabelled q doc element)
                 (enumerate 0 (formElements doc)))"

text \<open>\<open>label?.textContent || hasAriaLabel || ''\<close>, where \<open>label\<close> is looked up
  again when \<open>hasLabel\<close> is truthy.\<close>

definition labelText :: "selectorEngine \<Rightarrow> document \<Rightarrow> node \<Rightarrow> string" where
  "labelText q doc e =
     (let label = (if hasLabel q doc e
                   then (case getAttribute e ''id'' of
                           None \<Rightarrow> None
                         | Some i \<Rightarrow> (case labelLookup q doc i of None \<Rightarrow> None | Some l \<Rightarrow> l))
                   else None)
      in case orElse (orElse (map_option textContent label) (getAttribute e ''aria-label'')) (Some [])
         of None \<Rightarrow> [] | Some t \<Rightarrow> t)"

text \<open>Filled by the source and read by nothing.\<close>

definition elementsWithoutRequiredIndicator :: "selectorEngine \<Rightarrow> document \<Rightarrow> AccessibilityNode list" where
  "elementsWithoutRequiredIndicator q doc =
     map (\<lambda>(index, element).
            \<lparr>html = OuterHTML element,
             target = [nthChild (localName element) index],
             failureSummary = ''Required form field lacks clear required indicator''\<rparr>)
         (filter (\<lambda>(index, element).
                    \<not> skippedType element \<and> hasAttribute element ''required'' \<and>
                    \<not> includesStr (labelText q doc element) ''*'' \<and>
                    \<not> includesStr (toLowerCase (labelText q doc element)) ''required'')
                 (enumerate 0 (formElements doc)))"

text \<open>The selector engine throws at the label lookup of some control that reaches
  it: a control of a type that is not skipped, with a non-empty id.\<close>

definition labelLookupThrows :: "selectorEngine \<Rightarrow> document \<Rightarrow> bool" where
  "labelLookupThrows q doc =
     list_ex (\<lambda>e. \<not> skippedType e \<and>
                   (case getAttribute e ''id'' of
                      None \<Rightarrow> False
                    | Some i \<Rightarrow> i \<noteq> [] \<and> labelLookup q doc i = None))
             (formElements doc)"

definition formViolations :: "selectorEngine \<Rightarrow> document \<Rightarrow> AccessibilityViolation list" where
  "formViolations q doc =
     pushIf (elementsWithoutLabels q doc)
       \<lparr>vId = ''label'',
        impact = ''critical'',
        description = ''Form elements must have labels'',
        helpText = ''Form elements must have labels'',
        helpUrl = ''https://webaim.org/techniques/forms/controls'',
        tags = [''wcag2a'', ''wcag412'', ''wcag131'', ''cat.forms''],
        nodes = elementsWithoutLabels q doc\<rparr> @
     pushIf (elementsWithPoorLabels q doc)
       \<lparr>vId = ''placeholder-as-label'',
        impact = ''serious'',
        description = ''Placeholder text should not be used as the only form of labeling'',
        helpText = ''Placeholder text cannot replace proper labels'',
        helpUrl = ''https://webaim.org/techniques/forms/advanced#placeholder'',
        tags = [''wcag2a'', ''wcag131'', ''cat.forms''],
        nodes = elementsWithPoorLabels q doc\<rparr>"

section \<open>Check 3: buttons\<close>

definition buttons :: "document \<Rightarrow> node list" where
  "buttons doc =
     querySelectorAll doc
       [Tag ''button'', TagAttrEq ''input'' ''type'' ''button'',
        TagAttrEq ''input'' ''type'' ''submit'', TagAttrEq ''input'' ''type'' ''reset'']"

text \<open>\<open>text || value || ariaLabel || title\<close>, with the text content and the value
  trimmed.\<close>

definition buttonAccessibleText :: "node \<Rightarrow> string option" where
  "buttonAccessibleText button =
     (let text = Some (trim (textContent button));
          val = map_option trim (getAttribute button ''value'');
          ariaLabel = getAttribute button ''aria-label'';
          title = getAttribute button ''title''
      in orElse (orElse (orElse text val) ariaLabel) title)"

definition poorButtonPhrases :: "string list" where
  "poorButtonPhrases = [''click'', ''here'', ''more'', ''link'', ''button'']"

definition buttonsWithoutText :: "document \<Rightarrow> AccessibilityNode list" where
  "buttonsWithoutText doc =
     map (\<lambda>(index, button).
            \<lparr>html = OuterHTML button,
             target = [nthChild ''button'' index],
             failureSummary = ''Button does not have accessible text''\<rparr>)
         (filter (\<lambda>(index, button). \<not> truthy (buttonAccessibleText button))
                 (enumerate 0 (buttons doc)))"

definition buttonsWithPoorText :: "document \<Rightarrow> AccessibilityNode list" where
  "buttonsWithPoorText doc =
     map (\<lambda>(index, button).
            \<lparr>html = OuterHTML button,
             target = [nthChild ''button'' index],
             failureSummary =
               ''Button text '' @ [CHR 0x22] @
               (case buttonAccessibleText button of None \<Rightarrow> [] | Some t \<Rightarrow> t) @
               [CHR 0x22] @ '' is not descriptive''\<rparr>)
         (filter (\<lambda>(index, button).
                    case buttonAccessibleText button of
                      None \<Rightarrow> False
                    | Some t \<Rightarrow> t \<noteq> [] \<and> toLowerCase t \<in> set poorButtonPhrases)
                 (enumerate 0 (buttons doc)))"

definition buttonViolations :: "document \<Rightarrow> AccessibilityViolation list" where
  "buttonViolations doc =
     pushIf (buttonsWithoutText doc)
       \<lparr>vId = ''button-name'',
        impact = ''critical'',
        description = ''Buttons must have discernible text'',
        helpText = ''Buttons must have discernible text'',
        helpUrl = ''https://webaim.org/techniques/forms/controls#button'',
        tags = [''wcag2a'', ''wcag412'', ''cat.name-role-value''],
        nodes = buttonsWithoutText doc\<rparr> @
     pushIf (buttonsWithPoorText doc)
       \<lparr>vId = ''button-text-quality'',
        impact = ''moderate'',
        description = ''Button text should be descriptive'',
        helpText = ''Button text should clearly describe the button'' @ [CHR 0x27] @ ''s function'',
        helpUrl = ''https://webaim.org/techniques/hypertext/hypertext_links#link_text'',
        tags = [''wcag2a'', ''wcag244'', ''cat.name-role-value''],
        nodes = buttonsWithPoorText doc\<rparr>"

section \<open>Check 4: links\<close>

definition links :: "document \<Rightarrow> node list" where
  "links doc = querySelectorAll doc [TagAttr ''a'' ''href'']"

text \<open>\<open>text || ariaLabel || title\<close>, with the text content trimmed.\<close>

definition linkAccessibleText :: "node \<Rightarrow> string option" where
  "linkAccessibleText link =
     (let text = Some (trim (textContent link));
          ariaLabel = getAttribute link ''aria-label'';
          title = getAttribute link ''title''
      in orElse (orElse text ariaLabel) title)"

definition poorLinkPhrases :: "string list" where
  "poorLinkPhrases = [''click here'', ''here'', ''more'', ''read more'', ''link'', ''continue'']"

text \<open>The three lists and the \<open>Map\<close> that the loop over the links updates. The map
  takes an accessible text to the \<open>href\<close> stored for it.\<close>

record LinkLists =
  linksWithoutText :: "AccessibilityNode list"
  linksWithPoorText :: "AccessibilityNode list"
  linksWithSameText :: "AccessibilityNode list"
  linkTexts :: "string \<rightharpoonup> string option"

fun linkStep :: "LinkLists \<Rightarrow> nat \<times> node \<Rightarrow> LinkLists" where
  "linkStep st (index, link) =
     (let href = getAttribute link ''href'';
          accessibleText = linkAccessibleText link
      in if \<not> truthy accessibleText
         then st\<lparr>linksWithoutText := linksWithoutText st @
                [\<lparr>html = OuterHTML link,
                  target = [nthChild ''a'' index],
                  failureSummary = ''Link does not have accessible text''\<rparr>]\<rparr>
         else
           let t = (case accessibleText of None \<Rightarrow> [] | Some x \<Rightarrow> x);
               st1 = (if toLowerCase t \<in> set poorLinkPhrases
                      then st\<lparr>linksWithPoorText := linksWithPoorText st @
                             [\<lparr>html = OuterHTML link,
                               target = [nthChild ''a'' index],
                               failureSummary =
                                 ''Link text '' @ [CHR 0x22] @ t @ [CHR 0x22] @
                                 '' is not descriptive''\<rparr>]\<rparr>
                      else st)
           in (case linkTexts st1 t of
                 Some existingHref \<Rightarrow>
                   if existingHref \<noteq> href
                   then st1\<lparr>linksWithSameText := linksWithSameText st1 @
                           [\<lparr>html = OuterHTML link,
                             target = [nthChild ''a'' index],
                             failureSummary =
                               ''Multiple links with same text '' @ [CHR 0x22] @ t @ [CHR 0x22] @
                               '' lead to different destinations''\<rparr>]\<rparr>
                   else st1
               | None \<Rightarrow> st1\<lparr>linkTexts := (linkTexts st1)(t \<mapsto> href)\<rparr>))"

declare linkStep.simps [simp del]

definition linkLoop :: "document \<Rightarrow> LinkLists" where
  "linkLoop doc =
     foldl linkStep
       \<lparr>linksWithoutText = [], linksWithPoorText = [], linksWithSameText = [],
        linkTexts = Map.empty\<rparr>
       (enumerate 0 (links doc))"

text \<open>Two lists are pushed; \<open>linksWithSameText\<close> is read by nothing after the loop.\<close>

definition linkViolations :: "document \<Rightarrow> AccessibilityViolation list" where
  "linkViolations doc =
     pushIf (linksWithoutText (linkLoop doc))
       \<lparr>vId = ''link-name'',
        impact = ''serious'',
        description = ''Links must have discernible text'',
        helpText = ''Links must have discernible text'',
        helpUrl = ''https://webaim.org/techniques/hypertext/hypertext_links#link_text'',
        tags = [''wcag2a'', ''wcag244'', ''wcag412'', ''cat.name-role-value''],
        nodes = linksWithoutText (linkLoop doc)\<rparr> @
     pushIf (linksWithPoorText (linkLoop doc))
       \<lparr>vId = ''link-text-quality'',
        impact = ''moderate'',
        description = ''Link text should be descriptive'',
        helpText = ''Link text should clearly describe the link'' @ [CHR 0x27] @
                   ''s destination or function'',
        helpUrl = ''https://webaim.org/techniques/hypertext/hypertext_links#link_text'',
        tags = [''wcag2a'', ''wcag244'', ''cat.name-role-value''],
        nodes = linksWithPoorText (linkLoop doc)\<rparr>"

text \<open>
  The rule on links with the same text in the words of the specification, to compare
  \<open>linksWithSameText\<close> with: a link is flagged when it has accessible text, an
  earlier link has the same accessible text, and the first such link has a different
  \<open>href\<close>.
\<close>

definition conflictsWithFirst :: "node list \<Rightarrow> node \<Rightarrow> bool" where
  "conflictsWithFirst earlier link =
     (truthy (linkAccessibleText link) \<and>
      (case find (\<lambda>l. linkAccessibleText l = linkAccessibleText link) earlier of
         None \<Rightarrow> False
       | Some first \<Rightarrow> getAttribute first ''href'' \<noteq> getAttribute link ''href''))"

fun sameTextFlagged :: "node list \<Rightarrow> node list \<Rightarrow> node list" where
  "sameTextFlagged earlier [] = []"
| "sameTextFlagged earlier (l # ls) =
     (if conflictsWithFirst earlier l then [l] else []) @ sameTextFlagged (earlier @ [l]) ls"

text \<open>The invariant of the loop, for the links \<open>pre\<close> handled so far: the map holds,
  for every non-empty text, the \<open>href\<close> of the first of these links with that
  accessible text.\<close>

definition linkInv :: "node list \<Rightarrow> LinkLists \<Rightarrow> bool" where
  "linkInv pre st =
     (\<forall>t. t \<noteq> [] \<longrightarrow>
        linkTexts st t =
          map_option (\<lambda>f. getAttribute f ''href'') (find (\<lambda>l. linkAccessibleText l = Some t) pre))"

section \<open>Check 5: colour contrast\<close>

definition textElements :: "document \<Rightarrow> node list" where
  "textElements doc =
     querySelectorAll doc
       [Tag ''p'', Tag ''h1'', Tag ''h2'', Tag ''h3'', Tag ''h4'', Tag ''h5'', Tag ''h6'',
        Tag ''span'', Tag ''div'', Tag ''a'', Tag ''button'', Tag ''label'', Tag ''li'']"

text \<open>
  \<open>/color:\s*([^;]+)/\<close> and \<open>/background-color:\s*([^;]+)/\<close> tried at the start
  of a string; the result is the group. After the property name and the longest run of
  white space the group takes everything up to the next semicolon. When nothing is
  there (a semicolon or the end follows at once) the expression backtracks and the
  group is the last white-space character of the run, if there is one.
\<close>

definition matchDeclHere :: "string \<Rightarrow> string \<Rightarrow> string option" where
  "matchDeclHere prop s =
     (if startsWith s prop
      then let rest = drop (length prop) s;
               ws = takeWhile isWhitespace rest;
               after = dropWhile isWhitespace rest;
               grp = takeWhile (\<lambda>c. c \<noteq> CHR '';'') after
           in if grp \<noteq> [] then Some grp
              else if ws \<noteq> [] then Some [last ws]
              else None
      else None)"

fun searchDecl :: "string \<Rightarrow> string \<Rightarrow> string option" where
  "searchDecl prop [] = None"
| "searchDecl prop (c # t) =
     (case matchDeclHere prop (c # t) of
        Some grp \<Rightarrow> Some grp
      | None \<Rightarrow> searchDecl prop t)"

text \<open>\<open>/font-size:\s*(\d+)px/\<close>, the group.\<close>

definition matchFontSizeHere :: "string \<Rightarrow> string option" where
  "matchFontSizeHere s =
     (if startsWith s ''font-size:''
      then case digitsThen (dropWhile isWhitespace (drop 10 s)) of
             None \<Rightarrow> None
           | Some (d, rest) \<Rightarrow> if startsWith rest ''px'' then Some d else None
      else None)"

fun searchFontSize :: "string \<Rightarrow> string option" where
  "searchFontSize [] = None"
| "searchFontSize (c # t) =
     (case matchFontSizeHere (c # t) of
        Some d \<Rightarrow> Some d
      | None \<Rightarrow> searchFontSize t)"

text \<open>\<open>parseInt(fontSize[1]) || 14\<close>, where \<open>fontSize\<close> is the match or
  \<open>['', '14']\<close>.\<close>

definition fontSizeOf :: "node \<Rightarrow> nat" where
  "fontSizeOf element =
     (let fontSize = (case getAttribute element ''style'' of
                        None \<Rightarrow> None
                      | Some st \<Rightarrow> searchFontSize st);
          n = (case fontSize of None \<Rightarrow> parseInt ''14'' | Some d \<Rightarrow> parseInt d)
      in if n = 0 then 14 else n)"

definition isLargeText :: "node \<Rightarrow> string \<Rightarrow> bool" where
  "isLargeText element computedStyle =
     (let size = fontSizeOf element
      in size \<ge> 18 \<or> (size \<ge> 14 \<and> includesStr computedStyle ''font-weight: bold''))"

definition minContrastOf :: "node \<Rightarrow> string \<Rightarrow> real" where
  "minContrastOf element computedStyle =
     (if isLargeText element computedStyle then 3 else 4.5)"

definition showMinContrast :: "real \<Rightarrow> string" where
  "showMinContrast m = (if m = 3 then ''3'' else ''4.5'')"

text \<open>\<open>element.getAttribute('style') || ''\<close>.\<close>

definition computedStyleOf :: "node \<Rightarrow> string" where
  "computedStyleOf element =
     (case getAttribute element ''style'' of None \<Rightarrow> [] | Some st \<Rightarrow> st)"

text \<open>The two colours read from the inline style, when both declarations are found and
  both values parse to something truthy.\<close>

definition declaredColours :: "node \<Rightarrow> (js_colour \<times> js_colour) option" where
  "declaredColours element =
     (case (searchDecl ''color:'' (computedStyleOf element),
            searchDecl ''background-color:'' (computedStyleOf element)) of
        (Some colorMatch, Some bgColorMatch) \<Rightarrow>
          (case (parseColor (trim colorMatch), parseColor (trim bgColorMatch)) of
             (Some textColor, Some bgColor) \<Rightarrow> Some (textColor, bgColor)
           | _ \<Rightarrow> None)
      | _ \<Rightarrow> None)"

text \<open>
  The body of the loop over the text elements: the finding it pushes, if any. A colour
  that is not an \<open>{r, g, b}\<close> object has undefined channels, the ratio is
  \<open>NaN\<close>, and the comparison with the threshold is false.
\<close>

fun contrastFinding :: "nat \<times> node \<Rightarrow> AccessibilityNode option" where
  "contrastFinding (index, element) =
     (if trim (textContent element) = [] then None
      else (case declaredColours element of
              Some (Colour textColor, Colour bgColor) \<Rightarrow>
                (let contrast = getContrastRatio textColor bgColor;
                     minContrast = minContrastOf element (computedStyleOf element)
                 in if contrast < minContrast
                    then Some \<lparr>html = OuterHTML element,
                               target = [nthChild (localName element) index],
                               failureSummary =
                                 ''Text has insufficient color contrast ('' @
                                 toFixed2 contrast @ '':1, requires '' @
                                 showMinContrast minContrast @ '':1)''\<rparr>
                    else None)
            | _ \<Rightarrow> None))"

declare contrastFinding.simps [simp del]

definition contrastIssues :: "document \<Rightarrow> AccessibilityNode list" where
  "contrastIssues doc = List.map_filter contrastFinding (enumerate 0 (textElements doc))"

definition contrastViolations :: "document \<Rightarrow> AccessibilityViolation list" where
  "contrastViolations doc =
     pushIf (contrastIssues doc)
       \<lparr>vId = ''color-contrast'',
        impact = ''serious'',
        description = ''Text must have sufficient color contrast'',
        helpText = ''Text must have a contrast ratio of at least 4.5:1 (3:1 for large text)'',
        helpUrl = ''https://webaim.org/articles/contrast/'',
        tags = [''wcag2aa'', ''wcag143'', ''cat.color''],
        nodes = take 10 (contrastIssues doc)\<rparr>"

section \<open>Check 6: page structure\<close>

definition title :: "document \<Rightarrow> node option" where
  "title doc = querySelector doc [Tag ''title'']"

definition h1s :: "document \<Rightarrow> node list" where
  "h1s doc = querySelectorAll doc [Tag ''h1'']"

definition metaViewport :: "document \<Rightarrow> node option" where
  "metaViewport doc = querySelector doc [TagAttrEq ''meta'' ''name'' ''viewport'']"

text \<open>\<open>title && title.textContent?.trim()\<close>, in a boolean position.\<close>

definition hasTitleText :: "document \<Rightarrow> bool" where
  "hasTitleText doc =
     (case title doc of None \<Rightarrow> False | Some t \<Rightarrow> trim (textContent t) \<noteq> [])"

definition titleViolations :: "document \<Rightarrow> AccessibilityViolation list" where
  "titleViolations doc =
     (if \<not> hasTitleText doc
      then [\<lparr>vId = ''document-title'',
             impact = ''serious'',
             description = ''Documents must have a title to aid in navigation'',
             helpText = ''Documents must have <title> element to aid in navigation'',
             helpUrl = ''https://webaim.org/techniques/pagetitles/'',
             tags = [''wcag2a'', ''wcag242'', ''cat.text-alternatives''],
             nodes = [\<lparr>html = (case title doc of
                                 Some t \<Rightarrow> OuterHTML t
                               | None \<Rightarrow> Literal ''<title></title>''),
                       target = [''title''],
                       failureSummary = ''Document does not have a title''\<rparr>]\<rparr>]
      else [])"

definition h1Violations :: "document \<Rightarrow> AccessibilityViolation list" where
  "h1Violations doc =
     (if length (h1s doc) = 0
      then [\<lparr>vId = ''page-has-heading-one'',
             impact = ''moderate'',
             description = ''Page should have a heading structure that starts with h1'',
             helpText = ''Page must contain a level-one heading'',
             helpUrl = ''https://webaim.org/techniques/semanticstructure/'',
             tags = [''wcag2a'', ''wcag131'', ''cat.semantics''],
             nodes = [\<lparr>html = Literal ''<body>'',
                       target = [''body''],
                       failureSummary = ''Page does not contain a heading (h1)''\<rparr>]\<rparr>]
      else if length (h1s doc) > 1
      then [\<lparr>vId = ''multiple-h1'',
             impact = ''moderate'',
             description = ''Page should not have more than one h1 heading'',
             helpText = ''Page should have only one main heading (h1)'',
             helpUrl = ''https://webaim.org/techniques/semanticstructure/'',
             tags = [''wcag2a'', ''wcag131'', ''cat.semantics''],
             nodes = map (\<lambda>(index, h1).
                            \<lparr>html = OuterHTML h1,
                             target = [''h1:nth-child('' @ showNat (index + 2) @ '')''],
                             failureSummary = ''Multiple h1 headings found''\<rparr>)
                         (enumerate 0 (drop 1 (h1s doc)))\<rparr>]
      else [])"

definition langViolations :: "node \<Rightarrow> AccessibilityViolation list" where
  "langViolations htmlElement =
     (if \<not> truthy (getAttribute htmlElement ''lang'')
      then [\<lparr>vId = ''html-has-lang'',
             impact = ''serious'',
             description = ''The html element must have a lang attribute'',
             helpText = ''<html> element must have a lang attribute'',
             helpUrl = ''https://webaim.org/techniques/language/'',
             tags = [''wcag2a'', ''wcag311'', ''cat.language''],
             nodes = [\<lparr>html = OuterHTMLUpToGt htmlElement,
                       target = [''html''],
                       failureSummary = ''The <html> element does not have a lang attribute''\<rparr>]\<rparr>]
      else [])"

definition viewportViolations :: "document \<Rightarrow> AccessibilityViolation list" where
  "viewportViolations doc =
     (if metaViewport doc = None
      then [\<lparr>vId = ''meta-viewport'',
             impact = ''moderate'',
             description = ''Viewport meta tag should be present for responsive design'',
             helpText = ''Viewport meta tag should be included for mobile accessibility'',
             helpUrl = ''https://webaim.org/articles/mobile/'',
             tags = [''wcag2a'', ''cat.mobile''],
             nodes = [\<lparr>html = Literal ''<head>'',
                       target = [''head''],
                       failureSummary = ''Viewport meta tag is missing''\<rparr>]\<rparr>]
      else [])"

section \<open>Check 7: heading hierarchy\<close>

definition headings :: "document \<Rightarrow> node list" where
  "headings doc =
     querySelectorAll doc
       [Tag ''h1'', Tag ''h2'', Tag ''h3'', Tag ''h4'', Tag ''h5'', Tag ''h6'']"

text \<open>\<open>parseInt(heading.tagName.charAt(1))\<close>.\<close>

definition headingLevel :: "node \<Rightarrow> nat" where
  "headingLevel heading = parseInt (take 1 (drop 1 (localName heading)))"

definition headingLevels :: "document \<Rightarrow> nat list" where
  "headingLevels doc = map headingLevel (headings doc)"

definition skippedHeadings :: "document \<Rightarrow> AccessibilityNode list" where
  "skippedHeadings doc =
     map (\<lambda>(index, heading).
            \<lparr>html = OuterHTML heading,
             target = [localName heading],
             failureSummary =
               ''Heading level skips from h'' @ showNat (headingLevels doc ! (index - 1)) @
               '' to h'' @ showNat (headingLevel heading)\<rparr>)
         (filter (\<lambda>(index, heading).
                    index > 0 \<and> headingLevel heading > headingLevels doc ! (index - 1) + 1)
                 (enumerate 0 (headings doc)))"

definition emptyHeadings :: "document \<Rightarrow> AccessibilityNode list" where
  "emptyHeadings doc =
     map (\<lambda>(index, heading).
            \<lparr>html = OuterHTML heading,
             target = [localName heading],
             failureSummary = ''Heading is empty''\<rparr>)
         (filter (\<lambda>(index, heading). trim (textContent heading) = [])
                 (enumerate 0 (headings doc)))"

definition headingViolations :: "document \<Rightarrow> AccessibilityViolation list" where
  "headingViolations doc =
     pushIf (skippedHeadings doc)
       \<lparr>vId = ''heading-order'',
        impact = ''moderate'',
        description = ''Heading levels should only increase by one'',
        helpText = ''Heading levels should only increase by one'',
        helpUrl = ''https://webaim.org/techniques/semanticstructure/'',
        tags = [''wcag2a'', ''wcag131'', ''cat.semantics''],
        nodes = skippedHeadings doc\<rparr> @
     pushIf (emptyHeadings doc)
       \<lparr>vId = ''empty-heading'',
        impact = ''serious'',
        description = ''Headings must not be empty'',
        helpText = ''Headings must contain text'',
        helpUrl = ''https://webaim.org/techniques/semanticstructure/'',
        tags = [''wcag2a'', ''wcag131'', ''cat.semantics''],
        nodes = emptyHeadings doc\<rparr>"

section \<open>Check 8: tables\<close>

definition tables :: "document \<Rightarrow> node list" where
  "tables doc = querySelectorAll doc [Tag ''table'']"

definition tablesWithoutHeaders :: "document \<Rightarrow> AccessibilityNode list" where
  "tablesWithoutHeaders doc =
     map (\<lambda>(index, table).
            \<lparr>html = OuterHTMLSubstring table 200,
             target = [nthChild ''table'' index],
             failureSummary = ''Data table does not have header cells''\<rparr>)
         (filter (\<lambda>(index, table). length (elementQuerySelectorAll table [Tag ''th'']) = 0)
                 (enumerate 0 (tables doc)))"

text \<open>Filled by the source and read by nothing.\<close>

definition tablesWithoutCaption :: "document \<Rightarrow> AccessibilityNode list" where
  "tablesWithoutCaption doc =
     map (\<lambda>(index, table).
            \<lparr>html = OuterHTMLSubstring table 200,
             target = [nthChild ''table'' index],
             failureSummary = ''Data table does not have a caption''\<rparr>)
         (filter (\<lambda>(index, table). elementQuerySelector table [Tag ''caption''] = None)
                 (enumerate 0 (tables doc)))"

definition tableViolations :: "document \<Rightarrow> AccessibilityViolation list" where
  "tableViolations doc =
     pushIf (tablesWithoutHeaders doc)
       \<lparr>vId = ''table-headers'',
        impact = ''serious'',
        description = ''Data tables should have table headers'',
        helpText = ''Data tables should have table headers (th elements)'',
        helpUrl = ''https://webaim.org/techniques/tables/data'',
        tags = [''wcag2a'', ''wcag131'', ''cat.tables''],
        nodes = tablesWithoutHeaders doc\<rparr>"

section \<open>Passes\<close>

text \<open>The table \<open>passChecks\<close>: a condition, an id and a description for each entry,
  in the order of the source.\<close>

definition passChecks ::
  "selectorEngine \<Rightarrow> document \<Rightarrow> node \<Rightarrow> (bool \<times> string \<times> string) list" where
  "passChecks q doc htmlElement =
     [(length (images doc) > 0 \<and> length (imagesWithoutAlt doc) = 0,
         ''image-alt'', ''Images have alternative text''),
      (hasTitleText doc,
         ''document-title'', ''Document has a title''),
      (truthy (getAttribute htmlElement ''lang''),
         ''html-has-lang'', ''HTML element has lang attribute''),
      (length (h1s doc) = 1,
         ''page-has-heading-one'', ''Page has exactly one h1 heading''),
      (metaViewport doc \<noteq> None,
         ''meta-viewport'', ''Viewport meta tag is present''),
      (length (formElements doc) > 0 \<and> length (elementsWithoutLabels q doc) = 0,
         ''form-labels'', ''Form elements have proper labels''),
      (length (buttons doc) > 0 \<and> length (buttonsWithoutText doc) = 0,
         ''button-names'', ''Buttons have accessible names''),
      (length (links doc) > 0 \<and> length (linksWithoutText (linkLoop doc)) = 0,
         ''link-names'', ''Links have accessible names''),
      (length (headings doc) > 0 \<and> length (skippedHeadings doc) = 0,
         ''heading-structure'', ''Heading structure is logical'')]"

definition passesOf :: "(bool \<times> string \<times> string) list \<Rightarrow> AccessibilityPass list" where
  "passesOf checks =
     map (\<lambda>(condition, i, desc). \<lparr>pId = i, pDescription = desc, pHelp = desc\<rparr>)
         (filter (\<lambda>(condition, i, desc). condition) checks)"

section \<open>The engine\<close>

text \<open>
  What can stop \<open>runAccessibilityChecks\<close>: the \<open>SyntaxError\<close> of the selector
  engine at a label lookup of check 2, and the \<open>TypeError\<close> that JavaScript raises
  when \<open>getAttribute\<close> is read from a \<open>null\<close> \<open>documentElement\<close> in check 6.
  The source defines no error of its own and catches none.
\<close>

datatype js_error = TypeError | SyntaxError

definition runAccessibilityChecks ::
  "selectorEngine \<Rightarrow> document \<Rightarrow> js_error + AccessibilityResult" where
  "runAccessibilityChecks q doc =
     (if labelLookupThrows q doc then Inl SyntaxError
      else
        let checks1to5 = imageViolations doc @ formViolations q doc @ buttonViolations doc @
                         linkViolations doc @ contrastViolations doc;
            structure1 = titleViolations doc @ h1Violations doc
        in case documentElement doc of
             None \<Rightarrow> Inl TypeError
           | Some htmlElement \<Rightarrow>
               Inr \<lparr>violations =
                      checks1to5 @ structure1 @ langViolations htmlElement @
                      viewportViolations doc @ headingViolations doc @ tableViolations doc,
                    passes = passesOf (passChecks q doc htmlElement),
                    incomplete = []\<rparr>)"

section \<open>The response of the endpoint\<close>

text \<open>The part of \<open>POST\<close> that shapes the result of the engine into the report; the
  address, the crawl method and the time stamp come from the request and the clock.\<close>

record Report =
  url :: string
  crawlMethod :: string
  rViolations :: "AccessibilityViolation list"
  rPasses :: "AccessibilityPass list"
  rIncomplete :: "AccessibilityViolation list"
  timestamp :: string

definition formatNode :: "AccessibilityNode \<Rightarrow> AccessibilityNode" where
  "formatNode n =
     \<lparr>html = html n, target = target n,
      failureSummary = (if failureSummary n \<noteq> [] then failureSummary n else [])\<rparr>"

definition formatViolation :: "AccessibilityViolation \<Rightarrow> AccessibilityViolation" where
  "formatViolation v =
     \<lparr>vId = vId v, impact = impact v, description = description v, helpText = helpText v,
      helpUrl = helpUrl v, tags = tags v, nodes = take 5 (map formatNode (nodes v))\<rparr>"

definition formatReport :: "string \<Rightarrow> string \<Rightarrow> string \<Rightarrow> AccessibilityResult \<Rightarrow> Report" where
  "formatReport u method now results =
     \<lparr>url = u,
      crawlMethod = method,
      rViolations = map formatViolation (violations results),
      rPasses = map (\<lambda>p. \<lparr>pId = pId p, pDescription = pDescription p, pHelp = pHelp p\<rparr>)
                    (passes results),
      rIncomplete = map formatViolation (incomplete results),
      timestamp = now\<rparr>"

section \<open>The reduced engine\<close>

text \<open>The first check of the second, shorter \<open>runAccessibilityChecks\<close>:
  \<open>!img.getAttribute('alt') && img.getAttribute('alt') !== ''\<close>.\<close>

definition reducedImagesWithoutAlt :: "document \<Rightarrow> AccessibilityNode list" where
  "reducedImagesWithoutAlt doc =
     map (\<lambda>(index, img).
            \<lparr>html = OuterHTML img,
             target = [nthChild ''img'' index],
             failureSummary = ''Image does not have an alt attribute''\<rparr>)
         (filter (\<lambda>(index, img).
                    \<not> truthy (getAttribute img ''alt'') \<and> getAttribute img ''alt'' \<noteq> Some [])
                 (enumerate 0 (images doc)))"

section \<open>Observing a run\<close>

text \<open>Whether a run returned a result, and the rule ids of the violations and of the
  passes it returned (none when it stopped with an error).\<close>

definition isReport :: "js_error + AccessibilityResult \<Rightarrow> bool" where
  "isReport r = (case r of Inl e \<Rightarrow> False | Inr res \<Rightarrow> True)"

definition violationIds :: "js_error + AccessibilityResult \<Rightarrow> string list" where
  "violationIds r = (case r of Inl e \<Rightarrow> [] | Inr res \<Rightarrow> map vId (violations res))"

definition passIds :: "js_error + AccessibilityResult \<Rightarrow> string list" where
  "passIds r = (case r of Inl e \<Rightarrow> [] | Inr res \<Rightarrow> map pId (passes res))"

definition violationsWithId :: "string \<Rightarrow> AccessibilityResult \<Rightarrow> AccessibilityViolation list" where
  "violationsWithId i res = filter (\<lambda>v. vId v = i) (violations res)"

text \<open>The findings of the violations with a given id, each as the element serialised
  and the target: one list for each such violation.\<close>

definition findingsOf :: "string \<Rightarrow> js_error + AccessibilityResult \<Rightarrow> (markup \<times> string list) list list" where
  "findingsOf i r =
     (case r of
        Inl e \<Rightarrow> []
      | Inr res \<Rightarrow> map (\<lambda>v. map (\<lambda>n. (html n, target n)) (nodes v)) (violationsWithId i res))"

text \<open>\<open>POST\<close> from the parsed document on: an error of the engine leaves through the
  \<open>catch\<close> block, a result is shaped into the report.\<close>

definition reportOf ::
  "string \<Rightarrow> string \<Rightarrow> string \<Rightarrow> selectorEngine \<Rightarrow> document \<Rightarrow> js_error + Report" where
  "reportOf u method now q doc =
     (case runAccessibilityChecks q doc of
        Inl e \<Rightarrow> Inl e
      | Inr results \<Rightarrow> Inr (formatReport u method now results))"

definition reportTargets :: "js_error + Report \<Rightarrow> (string \<times> string list list) list" where
  "reportTargets r =
     (case r of
        Inl e \<Rightarrow> []
      | Inr rep \<Rightarrow> map (\<lambda>v. (vId v, map target (nodes v))) (rViolations rep))"

section \<open>Example documents\<close>

text \<open>A selector engine that throws at every selector text it is asked about.\<close>

definition strictEngine :: selectorEngine where
  "strictEngine doc i = None"

text \<open>A page with a language, a title, a viewport declaration and one \<open>h1\<close>, around
  the given body content: nothing in it is flagged by any rule.\<close>

definition page :: "node list \<Rightarrow> document" where
  "page content =
     Document (Some (Element ''html'' [(''lang'', ''en'')]
       [Element ''head'' []
          [Element ''title'' [] [Text ''Title''],
           Element ''meta'' [(''name'', ''viewport''), (''content'', ''width=device-width'')] []],
        Element ''body'' [] (Element ''h1'' [] [Text ''Heading''] # content)]))"

text \<open>A document that is a bare root element.\<close>

definition emptyPage :: document where
  "emptyPage = Document (Some (Element ''html'' [] []))"

definition imgNoAlt :: node where
  "imgNoAlt = Element ''img'' [(''src'', ''x'')] []"

definition imgEmptyAlt :: node where
  "imgEmptyAlt = Element ''img'' [(''src'', ''x''), (''alt'', [])] []"

definition heading :: "string \<Rightarrow> node" where
  "heading tag = Element tag [] [Text ''Section'']"

definition clickHere :: "string \<Rightarrow> node" where
  "clickHere href = Element ''a'' [(''href'', href)] [Text ''Click here'']"

definition labelledInput :: node where
  "labelledInput =
     Element ''input'' [(''type'', ''text''), (''id'', ''name''), (''aria-label'', ''Name'')] []"

definition hiddenInput :: node where
  "hiddenInput = Element ''input'' [(''type'', ''hidden''), (''name'', ''token'')] []"

definition blackOnBlack :: node where
  "blackOnBlack = Element ''p'' [(''style'', ''color: black; background-color: #000000'')] [Text ''x'']"






section \<open>Properties of the colour model\<close>

lemma getLuminance_nonneg: "0 \<le> getLuminance r g b"
  unfolding getLuminance_def Let_def
  by (intro add_nonneg_nonneg mult_nonneg_nonneg) auto

lemma getContrastRatio_same: "getContrastRatio c c = 1"
proof (cases c)
  case (RGB r g b)
  have "0 \<le> getLuminance r g b" by (rule getLuminance_nonneg)
  then show ?thesis using RGB by (simp add: getContrastRatio.simps Let_def)
qed







subsection \<open>What \<open>parseColor\<close> accepts\<close>














subsection \<open>Channels out of range\<close>

lemma toFixed2_one: "toFixed2 1 = ''1.00''"
proof -
  have "nat \<lfloor>(1::real) * 100 + 1 / 2\<rfloor> = 100" by simp
  moreover have "showNat (100 div 100) @ ''.'' @ showNat (100 div 10 mod 10) @
                 showNat (100 mod 10) = ''1.00''" by code_simp
  ultimately show ?thesis by (simp add: toFixed2_def)
qed

lemma contrastFinding_same_colour:
  assumes "trim (textContent e) \<noteq> []" "declaredColours e = Some (Colour c, Colour c)"
    "isLargeText e (computedStyleOf e) = False"
  shows "contrastFinding (i, e) =
     Some \<lparr>html = OuterHTML e, target = [nthChild (localName e) i],
           failureSummary = ''Text has insufficient color contrast ('' @
              toFixed2 (getContrastRatio c c) @ '':1, requires 4.5:1)''\<rparr>"
  using assms
  by (simp add: contrastFinding.simps Let_def minContrastOf_def showMinContrast_def
        getContrastRatio_same)

text \<open>
  Claim C10. \<open>parseColor\<close> does not check the range of the channels of an
  \<open>rgb(...)\<close> string: \<open>rgb(999, 0, 0)\<close> parses to a value with the channel 999, above
  255, and the contrast check passes that value to \<open>getContrastRatio\<close>: a paragraph
  whose inline style gives this colour to text and background gets a finding whose
  summary shows the ratio computed from it.
\<close>

theorem parseColor_no_range_validation:
  "parseColor ''rgb(999, 0, 0)'' = Some (Colour (RGB 999 0 0)) \<and> (255::nat) < 999 \<and>
   contrastFinding
     (0, Element ''p''
           [(''style'', ''color: rgb(999, 0, 0); background-color: rgb(999, 0, 0)'')]
           [Text ''x'']) =
     Some \<lparr>html = OuterHTML (Element ''p''
                     [(''style'', ''color: rgb(999, 0, 0); background-color: rgb(999, 0, 0)'')]
                     [Text ''x'']),
           target = [''p:nth-child(1)''],
           failureSummary =
             ''Text has insufficient color contrast ('' @
             toFixed2 (getContrastRatio (RGB 999 0 0) (RGB 999 0 0)) @ '':1, requires 4.5:1)''\<rparr>"
proof -
  let ?e = "Element ''p''
              [(''style'', ''color: rgb(999, 0, 0); background-color: rgb(999, 0, 0)'')]
              [Text ''x'']"
  have p: "parseColor ''rgb(999, 0, 0)'' = Some (Colour (RGB 999 0 0))" by code_simp
  have a: "trim (textContent ?e) \<noteq> []" by code_simp
  have b: "declaredColours ?e = Some (Colour (RGB 999 0 0), Colour (RGB 999 0 0))" by code_simp
  have c: "isLargeText ?e (computedStyleOf ?e) = False" by code_simp
  have d: "nthChild (localName ?e) 0 = ''p:nth-child(1)''" by code_simp
  show ?thesis
    using contrastFinding_same_colour [OF a b c, of 0] p unfolding d by simp
qed

section \<open>The two engines on images\<close>

text \<open>
  Claim C9. The condition of the fuller engine on an image (\<open>alt === null\<close>) holds
  exactly when the condition of the reduced engine holds (\<open>alt\<close> falsy and not the
  empty string), and the two lists of image-alt findings are the same list.
\<close>

theorem reduced_engine_image_alt_agrees:
  "(\<forall>img. (getAttribute img ''alt'' = None) =
           (\<not> truthy (getAttribute img ''alt'') \<and> getAttribute img ''alt'' \<noteq> Some [])) \<and>
   reducedImagesWithoutAlt doc = imagesWithoutAlt doc"
proof -
  have eq: "(getAttribute img ''alt'' = None) =
           (\<not> truthy (getAttribute img ''alt'') \<and> getAttribute img ''alt'' \<noteq> Some [])" for img
    by (cases "getAttribute img ''alt''") auto
  show ?thesis
    unfolding reducedImagesWithoutAlt_def imagesWithoutAlt_def using eq by simp
qed

section \<open>Properties of the engine\<close>

subsection \<open>The result of a run\<close>

lemma run_Inr:
  "runAccessibilityChecks q doc = Inr res \<Longrightarrow>
   \<exists>h. documentElement doc = Some h \<and> \<not> labelLookupThrows q doc \<and>
       violations res =
         imageViolations doc @ formViolations q doc @ buttonViolations doc @ linkViolations doc @
         contrastViolations doc @ titleViolations doc @ h1Violations doc @ langViolations h @
         viewportViolations doc @ headingViolations doc @ tableViolations doc \<and>
       passes res = passesOf (passChecks q doc h) \<and> incomplete res = []"
  by (auto simp: runAccessibilityChecks_def Let_def split: if_splits option.splits)

lemma vId_image: "map vId (imageViolations doc) = (if imagesWithoutAlt doc = [] then [] else [''image-alt''])"
  by (simp add: imageViolations_def pushIf_def)
lemma vId_form: "map vId (formViolations q doc) =
   (if elementsWithoutLabels q doc = [] then [] else [''label'']) @
   (if elementsWithPoorLabels q doc = [] then [] else [''placeholder-as-label''])"
  by (simp add: formViolations_def pushIf_def)
lemma vId_button: "map vId (buttonViolations doc) =
   (if buttonsWithoutText doc = [] then [] else [''button-name'']) @
   (if buttonsWithPoorText doc = [] then [] else [''button-text-quality''])"
  by (simp add: buttonViolations_def pushIf_def)
lemma vId_link: "map vId (linkViolations doc) =
   (if linksWithoutText (linkLoop doc) = [] then [] else [''link-name'']) @
   (if linksWithPoorText (linkLoop doc) = [] then [] else [''link-text-quality''])"
  by (simp add: linkViolations_def pushIf_def)
lemma vId_contrast: "map vId (contrastViolations doc) = (if contrastIssues doc = [] then [] else [''color-contrast''])"
  by (simp add: contrastViolations_def pushIf_def)
lemma vId_title: "map vId (titleViolations doc) = (if hasTitleText doc then [] else [''document-title''])"
  by (simp add: titleViolations_def)
lemma vId_h1: "map vId (h1Violations doc) =
   (if h1s doc = [] then [''page-has-heading-one''] else if length (h1s doc) > 1 then [''multiple-h1''] else [])"
  by (simp add: h1Violations_def)
lemma vId_lang: "map vId (langViolations h) = (if truthy (getAttribute h ''lang'') then [] else [''html-has-lang''])"
  by (simp add: langViolations_def)
lemma vId_viewport: "map vId (viewportViolations doc) = (if metaViewport doc = None then [''meta-viewport''] else [])"
  by (simp add: viewportViolations_def)
lemma vId_heading: "map vId (headingViolations doc) =
   (if skippedHeadings doc = [] then [] else [''heading-order'']) @
   (if emptyHeadings doc = [] then [] else [''empty-heading''])"
  by (simp add: headingViolations_def pushIf_def)
lemma vId_table: "map vId (tableViolations doc) = (if tablesWithoutHeaders doc = [] then [] else [''table-headers''])"
  by (simp add: tableViolations_def pushIf_def)

lemmas vId_pieces = vId_image vId_form vId_button vId_link vId_contrast vId_title vId_h1 vId_lang
  vId_viewport vId_heading vId_table

lemma filter_vId_none: "i \<notin> set (map vId vs) \<Longrightarrow> filter (\<lambda>v. vId v = i) vs = []"
  by (induction vs) auto

subsection \<open>Images\<close>

lemma snd_filter_enumerate:
  "map snd (filter (\<lambda>(i, x). P x) (enumerate n xs)) = filter P xs"
  by (induction xs arbitrary: n) auto

lemma imagesWithoutAlt_html:
  "map html (imagesWithoutAlt doc) =
   map OuterHTML (filter (\<lambda>img. getAttribute img ''alt'' = None) (images doc))"
proof -
  have "map html (imagesWithoutAlt doc) =
        map OuterHTML (map snd (filter (\<lambda>(i, img). getAttribute img ''alt'' = None)
                                  (enumerate 0 (images doc))))"
    by (simp add: imagesWithoutAlt_def comp_def case_prod_beta)
  then show ?thesis by (simp only: snd_filter_enumerate)
qed

lemma image_alt_violations:
  assumes "runAccessibilityChecks q doc = Inr res"
  shows "violationsWithId ''image-alt'' res = imageViolations doc"
proof -
  obtain h where v: "violations res =
         imageViolations doc @ formViolations q doc @ buttonViolations doc @ linkViolations doc @
         contrastViolations doc @ titleViolations doc @ h1Violations doc @ langViolations h @
         viewportViolations doc @ headingViolations doc @ tableViolations doc"
    using run_Inr [OF assms] by blast
  have a: "filter (\<lambda>v. vId v = ''image-alt'') (imageViolations doc) = imageViolations doc"
    by (simp add: imageViolations_def pushIf_def)
  show ?thesis
    unfolding violationsWithId_def v filter_append a
    by (simp add: filter_vId_none vId_pieces)
qed

lemma passIds_run:
  assumes "runAccessibilityChecks q doc = Inr res" "documentElement doc = Some h"
  shows "map pId (passes res) = map (fst \<circ> snd) (filter fst (passChecks q doc h))"
proof -
  have "passes res = passesOf (passChecks q doc h)" using run_Inr [OF assms(1)] assms(2) by auto
  then show ?thesis by (simp add: passesOf_def comp_def split_def)
qed

lemma image_alt_pass:
  assumes "runAccessibilityChecks q doc = Inr res"
  shows "(''image-alt'' \<in> set (map pId (passes res))) = (images doc \<noteq> [] \<and> imagesWithoutAlt doc = [])"
proof -
  obtain h where h: "documentElement doc = Some h" using run_Inr [OF assms] by blast
  show ?thesis unfolding passIds_run [OF assms h] by (auto simp: passChecks_def)
qed


lemma run_img_no_alt:
  "isReport (runAccessibilityChecks q (page [imgNoAlt])) \<and>
   violationIds (runAccessibilityChecks q (page [imgNoAlt])) = [''image-alt''] \<and>
   findingsOf ''image-alt'' (runAccessibilityChecks q (page [imgNoAlt])) =
     [[(OuterHTML imgNoAlt, [''img:nth-child(1)''])]] \<and>
   ''image-alt'' \<notin> set (passIds (runAccessibilityChecks q (page [imgNoAlt])))"
  by code_simp

lemma run_img_empty_alt:
  "isReport (runAccessibilityChecks q (page [imgEmptyAlt])) \<and>
   violationIds (runAccessibilityChecks q (page [imgEmptyAlt])) = [] \<and>
   ''image-alt'' \<in> set (passIds (runAccessibilityChecks q (page [imgEmptyAlt])))"
  by code_simp

lemma isReport_obtain: "isReport r \<Longrightarrow> \<exists>res. r = Inr res"
  by (cases r) (auto simp: isReport_def)

text \<open>
  Claim C4. The findings of the image-alt rule are, in document order, exactly the
  \<open>img\<close> elements whose \<open>alt\<close> attribute is absent; an empty \<open>alt\<close> is present
  and is never a finding. A run that returns has no image-alt violation when there is
  no such image, and otherwise exactly one, whose nodes are these findings; it has an
  image-alt pass exactly when there are images and none lacks \<open>alt\<close>. A page whose
  only issue is one \<open>img\<close> without \<open>alt\<close> yields exactly one violation, image-alt,
  with one finding, and no image-alt pass; a page whose only image has \<open>alt=""\<close>
  yields no violation and an image-alt pass.
\<close>

theorem image_alt_rule:
  "map html (imagesWithoutAlt doc) =
     map OuterHTML (filter (\<lambda>img. getAttribute img ''alt'' = None) (images doc)) \<and>
   (runAccessibilityChecks q doc = Inr res \<longrightarrow>
      (imagesWithoutAlt doc = [] \<longrightarrow> violationsWithId ''image-alt'' res = []) \<and>
      (imagesWithoutAlt doc \<noteq> [] \<longrightarrow>
         (\<exists>v. violationsWithId ''image-alt'' res = [v] \<and> nodes v = imagesWithoutAlt doc)) \<and>
      (''image-alt'' \<in> set (map pId (passes res))) =
         (images doc \<noteq> [] \<and> imagesWithoutAlt doc = [])) \<and>
   (isReport (runAccessibilityChecks q (page [imgNoAlt])) \<and>
    violationIds (runAccessibilityChecks q (page [imgNoAlt])) = [''image-alt''] \<and>
    findingsOf ''image-alt'' (runAccessibilityChecks q (page [imgNoAlt])) =
      [[(OuterHTML imgNoAlt, [''img:nth-child(1)''])]] \<and>
    ''image-alt'' \<notin> set (passIds (runAccessibilityChecks q (page [imgNoAlt])))) \<and>
   (isReport (runAccessibilityChecks q (page [imgEmptyAlt])) \<and>
    violationIds (runAccessibilityChecks q (page [imgEmptyAlt])) = [] \<and>
    ''image-alt'' \<in> set (passIds (runAccessibilityChecks q (page [imgEmptyAlt]))))"
proof -
  have gen: "(imagesWithoutAlt doc = [] \<longrightarrow> violationsWithId ''image-alt'' res = []) \<and>
      (imagesWithoutAlt doc \<noteq> [] \<longrightarrow>
         (\<exists>v. violationsWithId ''image-alt'' res = [v] \<and> nodes v = imagesWithoutAlt doc)) \<and>
      (''image-alt'' \<in> set (map pId (passes res))) =
         (images doc \<noteq> [] \<and> imagesWithoutAlt doc = [])"
    if run: "runAccessibilityChecks q doc = Inr res"
    unfolding image_alt_violations [OF run] image_alt_pass [OF run]
    by (simp add: imageViolations_def pushIf_def)
  show ?thesis
    using gen imagesWithoutAlt_html run_img_no_alt [where q = q] run_img_empty_alt [where q = q] by blast
qed

theorem image_alt_rule_witness:
  "(\<exists>res. runAccessibilityChecks strictEngine (page [imgNoAlt]) = Inr res \<and>
          imagesWithoutAlt (page [imgNoAlt]) \<noteq> [] \<and>
          (\<exists>v. violationsWithId ''image-alt'' res = [v] \<and>
               nodes v = imagesWithoutAlt (page [imgNoAlt])) \<and>
          ''image-alt'' \<notin> set (map pId (passes res))) \<and>
   (\<exists>res. runAccessibilityChecks strictEngine (page [imgEmptyAlt]) = Inr res \<and>
          images (page [imgEmptyAlt]) \<noteq> [] \<and>
          imagesWithoutAlt (page [imgEmptyAlt]) = [] \<and>
          violationsWithId ''image-alt'' res = [] \<and>
          ''image-alt'' \<in> set (map pId (passes res)))"
proof -
  obtain r1 where r1: "runAccessibilityChecks strictEngine (page [imgNoAlt]) = Inr r1"
    using run_img_no_alt [where q = strictEngine] isReport_obtain by blast
  have n1: "imagesWithoutAlt (page [imgNoAlt]) \<noteq> []" by code_simp
  have a: "(\<exists>v. violationsWithId ''image-alt'' r1 = [v] \<and>
               nodes v = imagesWithoutAlt (page [imgNoAlt])) \<and>
          ''image-alt'' \<notin> set (map pId (passes r1))"
    using image_alt_rule [where doc = "page [imgNoAlt]" and res = r1 and q = strictEngine] r1 n1 by auto
  obtain r2 where r2: "runAccessibilityChecks strictEngine (page [imgEmptyAlt]) = Inr r2"
    using run_img_empty_alt [where q = strictEngine] isReport_obtain by blast
  have n2: "images (page [imgEmptyAlt]) \<noteq> [] \<and> imagesWithoutAlt (page [imgEmptyAlt]) = []"
    by code_simp
  have b: "violationsWithId ''image-alt'' r2 = [] \<and> ''image-alt'' \<in> set (map pId (passes r2))"
    using image_alt_rule [where doc = "page [imgEmptyAlt]" and res = r2 and q = strictEngine] r2 n2 by auto
  show ?thesis using r1 n1 a r2 n2 b by blast
qed

subsection \<open>Heading order\<close>

lemma skipped_pairs_aux:
  "\<lbrakk>\<forall>k < length ys. all ! (n + Suc k) = ys ! k; all ! n = x\<rbrakk> \<Longrightarrow>
   map snd (filter (\<lambda>(i, h). i > 0 \<and> P (all ! (i - 1)) h) (enumerate (Suc n) ys)) =
   map snd (filter (\<lambda>(p, c). P p c) (zip (x # ys) ys))"
proof (induction ys arbitrary: x n)
  case Nil
  then show ?case by simp
next
  case (Cons y ys)
  have y: "all ! Suc n = y" using Cons.prems(1) by (auto dest: spec [of _ 0])
  have rest: "\<forall>k < length ys. all ! (Suc n + Suc k) = ys ! k"
    using Cons.prems(1) by (auto dest: spec [of _ "Suc k" for k])
  show ?case
    using Cons.IH [OF rest y] Cons.prems(2) by simp
qed

lemma skipped_pairs:
  "map snd (filter (\<lambda>(i, h). i > 0 \<and> P (xs ! (i - 1)) h) (enumerate 0 xs)) =
   map snd (filter (\<lambda>(p, c). P p c) (zip xs (tl xs)))"
proof (cases xs)
  case Nil
  then show ?thesis by simp
next
  case (Cons x ys)
  have "map snd (filter (\<lambda>(i, h). i > 0 \<and> P ((x # ys) ! (i - 1)) h) (enumerate (Suc 0) ys)) =
        map snd (filter (\<lambda>(p, c). P p c) (zip (x # ys) ys))"
    by (rule skipped_pairs_aux) simp_all
  then show ?thesis using Cons by simp
qed

lemma skippedHeadings_pairs:
  "map (\<lambda>n. (html n, target n)) (skippedHeadings doc) =
   map (\<lambda>(prev, cur). (OuterHTML cur, [localName cur]))
       (filter (\<lambda>(prev, cur). headingLevel cur > headingLevel prev + 1)
               (zip (headings doc) (tl (headings doc))))"
proof -
  let ?P = "\<lambda>p c. headingLevel c > headingLevel p + 1"
  have idx: "filter (\<lambda>(index, heading). index > 0 \<and> headingLevel heading > headingLevels doc ! (index - 1) + 1)
                (enumerate 0 (headings doc)) =
             filter (\<lambda>(i, h). i > 0 \<and> ?P (headings doc ! (i - 1)) h) (enumerate 0 (headings doc))"
    by (rule filter_cong) (auto simp: headingLevels_def in_set_enumerate_eq)
  have "map (\<lambda>n. (html n, target n)) (skippedHeadings doc) =
        map (\<lambda>c. (OuterHTML c, [localName c]))
          (map snd (filter (\<lambda>(i, h). i > 0 \<and> ?P (headings doc ! (i - 1)) h) (enumerate 0 (headings doc))))"
    unfolding skippedHeadings_def idx by (simp add: comp_def split_def)
  also have "\<dots> = map (\<lambda>c. (OuterHTML c, [localName c]))
          (map snd (filter (\<lambda>(p, c). ?P p c) (zip (headings doc) (tl (headings doc)))))"
    using skipped_pairs [of ?P "headings doc"] by simp
  finally show ?thesis by (simp add: comp_def split_def)
qed

lemma heading_order_violations:
  assumes "runAccessibilityChecks q doc = Inr res"
  shows "violationsWithId ''heading-order'' res =
         pushIf (skippedHeadings doc)
       \<lparr>vId = ''heading-order'',
        impact = ''moderate'',
        description = ''Heading levels should only increase by one'',
        helpText = ''Heading levels should only increase by one'',
        helpUrl = ''https://webaim.org/techniques/semanticstructure/'',
        tags = [''wcag2a'', ''wcag131'', ''cat.semantics''],
        nodes = skippedHeadings doc\<rparr>"
proof -
  obtain h where v: "violations res =
         imageViolations doc @ formViolations q doc @ buttonViolations doc @ linkViolations doc @
         contrastViolations doc @ titleViolations doc @ h1Violations doc @ langViolations h @
         viewportViolations doc @ headingViolations doc @ tableViolations doc"
    using run_Inr [OF assms] by blast
  have a: "filter (\<lambda>v. vId v = ''heading-order'') (headingViolations doc) = pushIf (skippedHeadings doc)
       \<lparr>vId = ''heading-order'',
        impact = ''moderate'',
        description = ''Heading levels should only increase by one'',
        helpText = ''Heading levels should only increase by one'',
        helpUrl = ''https://webaim.org/techniques/semanticstructure/'',
        tags = [''wcag2a'', ''wcag131'', ''cat.semantics''],
        nodes = skippedHeadings doc\<rparr>"
    by (simp add: headingViolations_def pushIf_def)
  show ?thesis
    unfolding violationsWithId_def v filter_append a
    by (simp add: filter_vId_none vId_pieces)
qed

lemma run_h1_h2_h4: "isReport (runAccessibilityChecks q (page [heading ''h2'', heading ''h4''])) \<and>
  violationIds (runAccessibilityChecks q (page [heading ''h2'', heading ''h4''])) = [''heading-order''] \<and>
  map (\<lambda>n. (html n, target n)) (skippedHeadings (page [heading ''h2'', heading ''h4''])) = [(OuterHTML (heading ''h4''), [''h4''])]"
  by code_simp

lemma run_h1_h2_h3: "isReport (runAccessibilityChecks q (page [heading ''h2'', heading ''h3''])) \<and>
  violationIds (runAccessibilityChecks q (page [heading ''h2'', heading ''h3''])) = [] \<and> skippedHeadings (page [heading ''h2'', heading ''h3'']) = []"
  by code_simp

text \<open>
  Claim C5. The findings of the heading-order rule are, in document order, exactly the
  headings whose level exceeds the level of the heading immediately before them by more
  than one: only consecutive pairs are compared. A run that returns has a heading-order
  violation exactly when there is such a heading, and its nodes are these findings.
  Headings \<open>h1, h2, h4\<close> yield one finding, for the \<open>h4\<close> element; headings
  \<open>h1, h2, h3\<close> yield none.
\<close>

theorem heading_order_rule:
  "map (\<lambda>n. (html n, target n)) (skippedHeadings doc) =
     map (\<lambda>(prev, cur). (OuterHTML cur, [localName cur]))
         (filter (\<lambda>(prev, cur). headingLevel cur > headingLevel prev + 1)
                 (zip (headings doc) (tl (headings doc)))) \<and>
   (runAccessibilityChecks q doc = Inr res \<longrightarrow>
      (skippedHeadings doc = [] \<longrightarrow> violationsWithId ''heading-order'' res = []) \<and>
      (skippedHeadings doc \<noteq> [] \<longrightarrow>
         (\<exists>v. violationsWithId ''heading-order'' res = [v] \<and> nodes v = skippedHeadings doc))) \<and>
   (isReport (runAccessibilityChecks q (page [heading ''h2'', heading ''h4''])) \<and>
    findingsOf ''heading-order'' (runAccessibilityChecks q (page [heading ''h2'', heading ''h4''])) =
      [[(OuterHTML (heading ''h4''), [''h4''])]]) \<and>
   (isReport (runAccessibilityChecks q (page [heading ''h2'', heading ''h3''])) \<and>
    findingsOf ''heading-order'' (runAccessibilityChecks q (page [heading ''h2'', heading ''h3''])) = [])"
proof -
  have gen: "(skippedHeadings doc = [] \<longrightarrow> violationsWithId ''heading-order'' res = []) \<and>
      (skippedHeadings doc \<noteq> [] \<longrightarrow>
         (\<exists>v. violationsWithId ''heading-order'' res = [v] \<and> nodes v = skippedHeadings doc))"
    if run: "runAccessibilityChecks q doc = Inr res"
    unfolding heading_order_violations [OF run] by (simp add: pushIf_def)
  have e1: "isReport (runAccessibilityChecks q (page [heading ''h2'', heading ''h4''])) \<and>
    findingsOf ''heading-order'' (runAccessibilityChecks q (page [heading ''h2'', heading ''h4''])) =
      [[(OuterHTML (heading ''h4''), [''h4''])]]" by code_simp
  have e2: "isReport (runAccessibilityChecks q (page [heading ''h2'', heading ''h3''])) \<and>
    findingsOf ''heading-order'' (runAccessibilityChecks q (page [heading ''h2'', heading ''h3''])) = []"
    by code_simp
  show ?thesis using gen skippedHeadings_pairs e1 e2 by blast
qed

theorem heading_order_rule_witness:
  "(\<exists>res. runAccessibilityChecks strictEngine (page [heading ''h2'', heading ''h4'']) = Inr res \<and>
          skippedHeadings (page [heading ''h2'', heading ''h4'']) \<noteq> [] \<and>
          (\<exists>v. violationsWithId ''heading-order'' res = [v] \<and>
               nodes v = skippedHeadings (page [heading ''h2'', heading ''h4'']))) \<and>
   (\<exists>res. runAccessibilityChecks strictEngine (page [heading ''h2'', heading ''h3'']) = Inr res \<and>
          skippedHeadings (page [heading ''h2'', heading ''h3'']) = [] \<and>
          violationsWithId ''heading-order'' res = [])"
proof -
  obtain r1 where r1: "runAccessibilityChecks strictEngine (page [heading ''h2'', heading ''h4'']) = Inr r1"
    using run_h1_h2_h4 [where q = strictEngine] isReport_obtain by blast
  have n1: "skippedHeadings (page [heading ''h2'', heading ''h4'']) \<noteq> []" by code_simp
  have a: "\<exists>v. violationsWithId ''heading-order'' r1 = [v] \<and>
               nodes v = skippedHeadings (page [heading ''h2'', heading ''h4''])"
    using heading_order_rule [where doc = "page [heading ''h2'', heading ''h4'']" and res = r1
        and q = strictEngine] r1 n1 by auto
  obtain r2 where r2: "runAccessibilityChecks strictEngine (page [heading ''h2'', heading ''h3'']) = Inr r2"
    using run_h1_h2_h3 [where q = strictEngine] isReport_obtain by blast
  have n2: "skippedHeadings (page [heading ''h2'', heading ''h3'']) = []"
    using run_h1_h2_h3 [where q = strictEngine] by simp
  have b: "violationsWithId ''heading-order'' r2 = []"
    using heading_order_rule [where doc = "page [heading ''h2'', heading ''h3'']" and res = r2
        and q = strictEngine] r2 n2 by auto
  show ?thesis using r1 n1 a r2 n2 b by blast
qed

subsection \<open>The caps on findings\<close>

lemma map_formatNode: "map formatNode ns = ns"
proof -
  have "formatNode n = n" for n by (cases n) (simp add: formatNode_def)
  then show ?thesis by (simp add: map_idI)
qed

lemma nodes_formatViolation: "nodes (formatViolation v) = take 5 (nodes v)"
  by (simp add: formatViolation_def map_formatNode)

lemma vId_formatViolation: "vId (formatViolation v) = vId v"
  by (simp add: formatViolation_def)

lemma contrast_nodes:
  assumes "runAccessibilityChecks q doc = Inr res" "v \<in> set (violations res)" "vId v = ''color-contrast''"
  shows "nodes v = take 10 (contrastIssues doc)"
proof -
  obtain h where vs: "violations res =
         imageViolations doc @ formViolations q doc @ buttonViolations doc @ linkViolations doc @
         contrastViolations doc @ titleViolations doc @ h1Violations doc @ langViolations h @
         viewportViolations doc @ headingViolations doc @ tableViolations doc"
    using run_Inr [OF assms(1)] by blast
  have other: "vId v \<notin> set (map vId (imageViolations doc @ formViolations q doc @ buttonViolations doc @
        linkViolations doc @ titleViolations doc @ h1Violations doc @ langViolations h @
         viewportViolations doc @ headingViolations doc @ tableViolations doc))"
    unfolding assms(3) map_append vId_pieces by simp
  have "v \<in> set (contrastViolations doc)"
    using assms(2) other unfolding vs by auto
  then show ?thesis by (auto simp: contrastViolations_def pushIf_def split: if_splits)
qed

lemma run_total:
  assumes "documentElement doc = Some h" "\<not> labelLookupThrows q doc"
  shows "\<exists>res. runAccessibilityChecks q doc = Inr res"
  using assms by (simp add: runAccessibilityChecks_def Let_def)

lemma run_twelve_images:
  "map length (findingsOf ''image-alt'' (runAccessibilityChecks q (page (replicate 12 imgNoAlt)))) = [12] \<and>
   reportTargets (reportOf u m t q (page (replicate 12 imgNoAlt))) =
     [(''image-alt'', [[''img:nth-child(1)''], [''img:nth-child(2)''], [''img:nth-child(3)''],
                       [''img:nth-child(4)''], [''img:nth-child(5)'']])]"
  by code_simp

lemma blackOnBlack_finding:
  "contrastFinding (i, blackOnBlack) =
     Some \<lparr>html = OuterHTML blackOnBlack, target = [nthChild (localName blackOnBlack) i],
           failureSummary = ''Text has insufficient color contrast ('' @
              toFixed2 (getContrastRatio (RGB 0 0 0) (RGB 0 0 0)) @ '':1, requires 4.5:1)''\<rparr>"
proof -
  have a: "trim (textContent blackOnBlack) \<noteq> []" by code_simp
  have b: "declaredColours blackOnBlack = Some (Colour (RGB 0 0 0), Colour (RGB 0 0 0))" by code_simp
  have c: "isLargeText blackOnBlack (computedStyleOf blackOnBlack) = False" by code_simp
  show ?thesis by (rule contrastFinding_same_colour [OF a b c])
qed

lemma blackOnBlack_issues:
  "length (List.map_filter contrastFinding (enumerate n (replicate k blackOnBlack))) = k"
  by (induction k arbitrary: n) (simp_all add: List.map_filter_simps blackOnBlack_finding)

lemma twelve_paragraphs_issues: "length (contrastIssues (page (replicate 12 blackOnBlack))) = 12"
proof -
  have te: "textElements (page (replicate 12 blackOnBlack)) =
            Element ''h1'' [] [Text ''Heading''] # replicate 12 blackOnBlack" by code_simp
  have h: "contrastFinding (0, Element ''h1'' [] [Text ''Heading'']) = None" by code_simp
  show ?thesis
    unfolding contrastIssues_def te
    by (simp add: List.map_filter_simps h blackOnBlack_issues)
qed


text \<open>
  Claim C8. In the report that \<open>POST\<close> builds from a run that returned, every
  violation has at most 5 nodes: they are the first 5 nodes of the violation of the
  engine, in the same order, and the violations keep their ids and their order. The
  nodes of a color-contrast violation of the engine are the first 10 contrast findings,
  so at most 10. A violation with 12 nodes is reported with exactly 5, the first 5; a
  page with 12 images without \<open>alt\<close> is reported with the targets of the first five
  images.
\<close>

theorem report_caps:
  "(runAccessibilityChecks q doc = Inr res \<longrightarrow>
      (\<forall>v \<in> set (rViolations (formatReport u m t res)). length (nodes v) \<le> 5) \<and>
      map nodes (rViolations (formatReport u m t res)) =
        map (\<lambda>v. take 5 (nodes v)) (violations res) \<and>
      map vId (rViolations (formatReport u m t res)) = map vId (violations res) \<and>
      (\<forall>v \<in> set (violations res).
         vId v = ''color-contrast'' \<longrightarrow>
           nodes v = take 10 (contrastIssues doc) \<and> length (nodes v) \<le> 10) \<and>
      (\<forall>v \<in> set (violations res).
         length (nodes v) = 12 \<longrightarrow>
           length (nodes (formatViolation v)) = 5 \<and> nodes (formatViolation v) = take 5 (nodes v))) \<and>
   (map length (findingsOf ''image-alt'' (runAccessibilityChecks q (page (replicate 12 imgNoAlt)))) = [12] \<and>
    reportTargets (reportOf u m t q (page (replicate 12 imgNoAlt))) =
      [(''image-alt'', [[''img:nth-child(1)''], [''img:nth-child(2)''], [''img:nth-child(3)''],
                        [''img:nth-child(4)''], [''img:nth-child(5)'']])])"
proof -
  have a: "\<forall>v \<in> set (rViolations (formatReport u m t res)). length (nodes v) \<le> 5"
    by (auto simp: formatReport_def nodes_formatViolation)
  have b: "map nodes (rViolations (formatReport u m t res)) =
        map (\<lambda>v. take 5 (nodes v)) (violations res)"
    by (simp add: formatReport_def nodes_formatViolation comp_def)
  have c: "map vId (rViolations (formatReport u m t res)) = map vId (violations res)"
    by (simp add: formatReport_def vId_formatViolation comp_def)
  have d: "\<forall>v \<in> set (violations res).
         vId v = ''color-contrast'' \<longrightarrow>
           nodes v = take 10 (contrastIssues doc) \<and> length (nodes v) \<le> 10"
    if run: "runAccessibilityChecks q doc = Inr res"
    using contrast_nodes [OF run] by auto
  have e: "\<forall>v \<in> set (violations res).
         length (nodes v) = 12 \<longrightarrow>
           length (nodes (formatViolation v)) = 5 \<and> nodes (formatViolation v) = take 5 (nodes v)"
    by (simp add: nodes_formatViolation)
  show ?thesis
    using a b c d e run_twelve_images [where u = u and m = m and t = t and q = q] by blast
qed

theorem report_caps_witness:
  "(\<exists>res. runAccessibilityChecks strictEngine (page (replicate 12 blackOnBlack)) = Inr res \<and>
      length (contrastIssues (page (replicate 12 blackOnBlack))) = 12 \<and>
      (\<exists>v \<in> set (violations res). vId v = ''color-contrast'' \<and> length (nodes v) = 10) \<and>
      (\<exists>v \<in> set (rViolations (formatReport ''https://example.org/'' ''direct-fetch''
                                 ''2024-01-01T00:00:00.000Z'' res)).
          vId v = ''color-contrast'' \<and> length (nodes v) = 5)) \<and>
   (\<exists>res. runAccessibilityChecks strictEngine (page (replicate 12 imgNoAlt)) = Inr res \<and>
      (\<exists>v \<in> set (violations res).
          vId v = ''image-alt'' \<and> length (nodes v) = 12 \<and>
          length (nodes (formatViolation v)) = 5 \<and>
          nodes (formatViolation v) = take 5 (nodes v)))"
proof -
  let ?D = "page (replicate 12 blackOnBlack)"
  let ?rep = "formatReport ''https://example.org/'' ''direct-fetch'' ''2024-01-01T00:00:00.000Z''"
  have safe: "\<not> labelLookupThrows strictEngine ?D" by code_simp
  obtain h where h: "documentElement ?D = Some h" by (simp add: page_def)
  obtain res where run: "runAccessibilityChecks strictEngine ?D = Inr res"
    using run_total [OF h safe] by blast
  have len: "length (contrastIssues ?D) = 12" by (rule twelve_paragraphs_issues)
  then have ne: "contrastIssues ?D \<noteq> []" by auto
  obtain h' where vs: "violations res =
         imageViolations ?D @ formViolations strictEngine ?D @ buttonViolations ?D @ linkViolations ?D @
         contrastViolations ?D @ titleViolations ?D @ h1Violations ?D @ langViolations h' @
         viewportViolations ?D @ headingViolations ?D @ tableViolations ?D"
    using run_Inr [OF run] by blast
  obtain v where v: "v \<in> set (contrastViolations ?D)" "vId v = ''color-contrast''"
    using ne by (auto simp: contrastViolations_def pushIf_def)
  have vin: "v \<in> set (violations res)" using v(1) unfolding vs by simp
  have caps: "nodes v = take 10 (contrastIssues ?D)"
    using report_caps [where doc = ?D and res = res and q = strictEngine
        and u = "''https://example.org/''" and m = "''direct-fetch''"
        and t = "''2024-01-01T00:00:00.000Z''"] run vin v(2) by blast
  have l10: "length (nodes v) = 10" using caps len by simp
  have fin: "formatViolation v \<in> set (rViolations (?rep res))"
    using vin by (simp add: formatReport_def)
  have "vId (formatViolation v) = ''color-contrast'' \<and> length (nodes (formatViolation v)) = 5"
    using v(2) l10 by (simp add: vId_formatViolation nodes_formatViolation)
  then have first: "\<exists>res. runAccessibilityChecks strictEngine ?D = Inr res \<and>
      length (contrastIssues ?D) = 12 \<and>
      (\<exists>v \<in> set (violations res). vId v = ''color-contrast'' \<and> length (nodes v) = 10) \<and>
      (\<exists>v \<in> set (rViolations (?rep res)). vId v = ''color-contrast'' \<and> length (nodes v) = 5)"
    using run len vin v(2) l10 fin by blast
  let ?I = "page (replicate 12 imgNoAlt)"
  have safeI: "\<not> labelLookupThrows strictEngine ?I" by code_simp
  obtain hI where hI: "documentElement ?I = Some hI" by (simp add: page_def)
  obtain resI where runI: "runAccessibilityChecks strictEngine ?I = Inr resI"
    using run_total [OF hI safeI] by blast
  have "map (\<lambda>v. length (nodes v)) (violationsWithId ''image-alt'' resI) = [12]"
    using run_twelve_images [where u = "[]" and m = "[]" and t = "[]" and q = strictEngine]
    by (simp add: findingsOf_def runI comp_def)
  then obtain w where w: "violationsWithId ''image-alt'' resI = [w]" "length (nodes w) = 12"
    by auto
  have "w \<in> set (violationsWithId ''image-alt'' resI)" using w(1) by simp
  then have win: "w \<in> set (violations resI)" and wid: "vId w = ''image-alt''"
    by (auto simp: violationsWithId_def)
  have "length (nodes (formatViolation w)) = 5 \<and> nodes (formatViolation w) = take 5 (nodes w)"
    using report_caps [where doc = ?I and res = resI and q = strictEngine and u = "[]" and m = "[]" and t = "[]"] runI win w(2) by blast
  then have second: "\<exists>res. runAccessibilityChecks strictEngine ?I = Inr res \<and>
      (\<exists>v \<in> set (violations res).
          vId v = ''image-alt'' \<and> length (nodes v) = 12 \<and>
          length (nodes (formatViolation v)) = 5 \<and>
          nodes (formatViolation v) = take 5 (nodes v))"
    using runI win wid w(2) by blast
  show ?thesis using first second by blast
qed

subsection \<open>Passes\<close>

lemma passIds_members:
  assumes run: "runAccessibilityChecks q doc = Inr res" and h: "documentElement doc = Some h"
  shows "(''image-alt'' \<in> set (map pId (passes res))) = (images doc \<noteq> [] \<and> imagesWithoutAlt doc = [])"
    and "(''document-title'' \<in> set (map pId (passes res))) = hasTitleText doc"
    and "(''html-has-lang'' \<in> set (map pId (passes res))) = truthy (getAttribute h ''lang'')"
    and "(''page-has-heading-one'' \<in> set (map pId (passes res))) = (length (h1s doc) = 1)"
    and "(''meta-viewport'' \<in> set (map pId (passes res))) = (metaViewport doc \<noteq> None)"
    and "(''form-labels'' \<in> set (map pId (passes res))) = (formElements doc \<noteq> [] \<and> elementsWithoutLabels q doc = [])"
    and "(''button-names'' \<in> set (map pId (passes res))) = (buttons doc \<noteq> [] \<and> buttonsWithoutText doc = [])"
    and "(''link-names'' \<in> set (map pId (passes res))) = (links doc \<noteq> [] \<and> linksWithoutText (linkLoop doc) = [])"
    and "(''heading-structure'' \<in> set (map pId (passes res))) = (headings doc \<noteq> [] \<and> skippedHeadings doc = [])"
    and "set (map pId (passes res)) \<subseteq> {''image-alt'', ''document-title'', ''html-has-lang'',
           ''page-has-heading-one'', ''meta-viewport'', ''form-labels'', ''button-names'',
           ''link-names'', ''heading-structure''}"
  unfolding passIds_run [OF run h] by (auto simp: passChecks_def)

lemma violationIds_members:
  assumes run: "runAccessibilityChecks q doc = Inr res"
  shows "(''image-alt'' \<in> set (map vId (violations res))) = (imagesWithoutAlt doc \<noteq> [])"
    and "(''label'' \<in> set (map vId (violations res))) = (elementsWithoutLabels q doc \<noteq> [])"
    and "(''button-name'' \<in> set (map vId (violations res))) = (buttonsWithoutText doc \<noteq> [])"
    and "(''link-name'' \<in> set (map vId (violations res))) = (linksWithoutText (linkLoop doc) \<noteq> [])"
    and "(''heading-order'' \<in> set (map vId (violations res))) = (skippedHeadings doc \<noteq> [])"
    and "(''table-headers'' \<in> set (map vId (violations res))) = (tablesWithoutHeaders doc \<noteq> [])"
    and "(''document-title'' \<in> set (map vId (violations res))) = (\<not> hasTitleText doc)"
    and "(''meta-viewport'' \<in> set (map vId (violations res))) = (metaViewport doc = None)"
    and "(''page-has-heading-one'' \<in> set (map vId (violations res))) = (h1s doc = [])"
    and "''link-same-text-diff-target'' \<notin> set (map vId (violations res))"
proof -
  obtain h where vs: "violations res =
         imageViolations doc @ formViolations q doc @ buttonViolations doc @ linkViolations doc @
         contrastViolations doc @ titleViolations doc @ h1Violations doc @ langViolations h @
         viewportViolations doc @ headingViolations doc @ tableViolations doc"
    using run_Inr [OF run] by blast
  show "(''image-alt'' \<in> set (map vId (violations res))) = (imagesWithoutAlt doc \<noteq> [])"
    unfolding vs map_append vId_pieces by simp
  show "(''label'' \<in> set (map vId (violations res))) = (elementsWithoutLabels q doc \<noteq> [])"
    unfolding vs map_append vId_pieces by simp
  show "(''button-name'' \<in> set (map vId (violations res))) = (buttonsWithoutText doc \<noteq> [])"
    unfolding vs map_append vId_pieces by simp
  show "(''link-name'' \<in> set (map vId (violations res))) = (linksWithoutText (linkLoop doc) \<noteq> [])"
    unfolding vs map_append vId_pieces by simp
  show "(''heading-order'' \<in> set (map vId (violations res))) = (skippedHeadings doc \<noteq> [])"
    unfolding vs map_append vId_pieces by simp
  show "(''table-headers'' \<in> set (map vId (violations res))) = (tablesWithoutHeaders doc \<noteq> [])"
    unfolding vs map_append vId_pieces by simp
  show "(''document-title'' \<in> set (map vId (violations res))) = (\<not> hasTitleText doc)"
    unfolding vs map_append vId_pieces by simp
  show "(''meta-viewport'' \<in> set (map vId (violations res))) = (metaViewport doc = None)"
    unfolding vs map_append vId_pieces by simp
  show "(''page-has-heading-one'' \<in> set (map vId (violations res))) = (h1s doc = [])"
    unfolding vs map_append vId_pieces by simp
  show "''link-same-text-diff-target'' \<notin> set (map vId (violations res))"
    unfolding vs map_append vId_pieces by simp
qed

lemma lang_violation_iff:
  assumes run: "runAccessibilityChecks q doc = Inr res" and h: "documentElement doc = Some h"
  shows "(''html-has-lang'' \<in> set (map vId (violations res))) = (\<not> truthy (getAttribute h ''lang''))"
proof -
  have vs: "violations res =
         imageViolations doc @ formViolations q doc @ buttonViolations doc @ linkViolations doc @
         contrastViolations doc @ titleViolations doc @ h1Violations doc @ langViolations h @
         viewportViolations doc @ headingViolations doc @ tableViolations doc"
    using run_Inr [OF run] h by auto
  show ?thesis unfolding vs map_append vId_pieces by simp
qed

lemma filter_enumerate_Nil:
  "(\<And>x. x \<in> set xs \<Longrightarrow> \<not> P x) \<Longrightarrow> filter (\<lambda>(i, x). P x) (enumerate n xs) = []"
  by (induction xs arbitrary: n) auto

lemma no_elements_no_findings:
  "images doc = [] \<Longrightarrow> imagesWithoutAlt doc = []"
  "buttons doc = [] \<Longrightarrow> buttonsWithoutText doc = []"
  "headings doc = [] \<Longrightarrow> skippedHeadings doc = []"
  "tables doc = [] \<Longrightarrow> tablesWithoutHeaders doc = []"
  "links doc = [] \<Longrightarrow> linksWithoutText (linkLoop doc) = []"
  by (simp_all add: imagesWithoutAlt_def buttonsWithoutText_def skippedHeadings_def
        tablesWithoutHeaders_def linkLoop_def)

lemma only_skipped_no_findings:
  assumes "\<forall>e \<in> set (formElements doc). skippedType e"
  shows "elementsWithoutLabels q doc = []"
proof -
  have "filter (\<lambda>(index, element). \<not> skippedType element \<and> unlabelled q doc element)
          (enumerate 0 (formElements doc)) = []"
    by (rule filter_enumerate_Nil) (use assms in auto)
  then show ?thesis by (simp add: elementsWithoutLabels_def)
qed

lemma run_labelled_input:
  "isReport (runAccessibilityChecks q (page [labelledInput])) \<and>
   list_ex (\<lambda>e. \<not> skippedType e) (formElements (page [labelledInput])) \<and>
   elementsWithoutLabels q (page [labelledInput]) = [] \<and>
   violationIds (runAccessibilityChecks q (page [labelledInput])) = [] \<and>
   passIds (runAccessibilityChecks q (page [labelledInput])) =
     [''document-title'', ''html-has-lang'', ''page-has-heading-one'', ''meta-viewport'',
      ''form-labels'', ''heading-structure'']"
  by code_simp

text \<open>
  Claim C2, as stated, fails: a page whose only form control is a text input with an
  \<open>aria-label\<close> has an applicable element for the label rule and no finding, and no
  pass with the id \<open>label\<close> is emitted. The pass that is emitted has the id
  \<open>form-labels\<close>.
\<close>

theorem pass_for_label_rule_counterexample:
  "isReport (runAccessibilityChecks strictEngine (page [labelledInput])) \<and>
   list_ex (\<lambda>e. \<not> skippedType e) (formElements (page [labelledInput])) \<and>
   elementsWithoutLabels strictEngine (page [labelledInput]) = [] \<and>
   ''label'' \<notin> set (violationIds (runAccessibilityChecks strictEngine (page [labelledInput]))) \<and>
   ''label'' \<notin> set (passIds (runAccessibilityChecks strictEngine (page [labelledInput]))) \<and>
   ''form-labels'' \<in> set (passIds (runAccessibilityChecks strictEngine (page [labelledInput])))"
  using run_labelled_input [where q = strictEngine] by simp

text \<open>
  Claim C2, amended. In a run that returns, the ids of the passes are among image-alt,
  document-title, html-has-lang, page-has-heading-one, meta-viewport, form-labels,
  button-names, link-names and heading-structure. The passes image-alt, button-names,
  link-names and heading-structure are emitted exactly when the rule (image-alt,
  button-name, link-name, heading-order) has an element to look at and no violation;
  document-title, html-has-lang and meta-viewport exactly when the rule has no
  violation; page-has-heading-one exactly when there is one \<open>h1\<close>; form-labels when
  some form control is not of an excluded type and the label rule has no violation, and
  not when there is no form control at all. A rule without elements to look at has no
  violation: no image-alt, button-name, link-name, heading-order or table-headers
  violation without images, buttons, links, headings or tables, and no label violation
  when every form control is of an excluded type. No pass carries the id table-headers
  or label.
\<close>

theorem pass_emission:
  "runAccessibilityChecks q doc = Inr res \<longrightarrow>
     ((''image-alt'' \<in> set (map pId (passes res))) =
        (images doc \<noteq> [] \<and> ''image-alt'' \<notin> set (map vId (violations res)))) \<and>
     ((''button-names'' \<in> set (map pId (passes res))) =
        (buttons doc \<noteq> [] \<and> ''button-name'' \<notin> set (map vId (violations res)))) \<and>
     ((''link-names'' \<in> set (map pId (passes res))) =
        (links doc \<noteq> [] \<and> ''link-name'' \<notin> set (map vId (violations res)))) \<and>
     ((''heading-structure'' \<in> set (map pId (passes res))) =
        (headings doc \<noteq> [] \<and> ''heading-order'' \<notin> set (map vId (violations res)))) \<and>
     ((''document-title'' \<in> set (map pId (passes res))) =
        (''document-title'' \<notin> set (map vId (violations res)))) \<and>
     ((''html-has-lang'' \<in> set (map pId (passes res))) =
        (''html-has-lang'' \<notin> set (map vId (violations res)))) \<and>
     ((''meta-viewport'' \<in> set (map pId (passes res))) =
        (''meta-viewport'' \<notin> set (map vId (violations res)))) \<and>
     ((''page-has-heading-one'' \<in> set (map pId (passes res))) = (length (h1s doc) = 1)) \<and>
     ((\<exists>e \<in> set (formElements doc). \<not> skippedType e) \<and>
        ''label'' \<notin> set (map vId (violations res)) \<longrightarrow>
        ''form-labels'' \<in> set (map pId (passes res))) \<and>
     (formElements doc = [] \<longrightarrow>
        ''form-labels'' \<notin> set (map pId (passes res)) \<and>
        ''label'' \<notin> set (map vId (violations res))) \<and>
     ((\<forall>e \<in> set (formElements doc). skippedType e) \<longrightarrow>
        ''label'' \<notin> set (map vId (violations res))) \<and>
     (images doc = [] \<longrightarrow> ''image-alt'' \<notin> set (map vId (violations res))) \<and>
     (buttons doc = [] \<longrightarrow> ''button-name'' \<notin> set (map vId (violations res))) \<and>
     (links doc = [] \<longrightarrow> ''link-name'' \<notin> set (map vId (violations res))) \<and>
     (headings doc = [] \<longrightarrow> ''heading-order'' \<notin> set (map vId (violations res))) \<and>
     (tables doc = [] \<longrightarrow> ''table-headers'' \<notin> set (map vId (violations res))) \<and>
     set (map pId (passes res)) \<subseteq>
       {''image-alt'', ''document-title'', ''html-has-lang'', ''page-has-heading-one'',
        ''meta-viewport'', ''form-labels'', ''button-names'', ''link-names'',
        ''heading-structure''}"
proof
  assume run: "runAccessibilityChecks q doc = Inr res"
  obtain h where h: "documentElement doc = Some h" using run_Inr [OF run] by blast
  note P = passIds_members [OF run h]
  note V = violationIds_members [OF run] lang_violation_iff [OF run h]
  have fl: "formElements doc = [] \<longrightarrow> elementsWithoutLabels q doc = []"
    using only_skipped_no_findings [where doc = doc and q = q] by auto
  have ne: "(\<exists>e \<in> set (formElements doc). \<not> skippedType e) \<longrightarrow> formElements doc \<noteq> []" by auto
  show "((''image-alt'' \<in> set (map pId (passes res))) =
        (images doc \<noteq> [] \<and> ''image-alt'' \<notin> set (map vId (violations res)))) \<and>
     ((''button-names'' \<in> set (map pId (passes res))) =
        (buttons doc \<noteq> [] \<and> ''button-name'' \<notin> set (map vId (violations res)))) \<and>
     ((''link-names'' \<in> set (map pId (passes res))) =
        (links doc \<noteq> [] \<and> ''link-name'' \<notin> set (map vId (violations res)))) \<and>
     ((''heading-structure'' \<in> set (map pId (passes res))) =
        (headings doc \<noteq> [] \<and> ''heading-order'' \<notin> set (map vId (violations res)))) \<and>
     ((''document-title'' \<in> set (map pId (passes res))) =
        (''document-title'' \<notin> set (map vId (violations res)))) \<and>
     ((''html-has-lang'' \<in> set (map pId (passes res))) =
        (''html-has-lang'' \<notin> set (map vId (violations res)))) \<and>
     ((''meta-viewport'' \<in> set (map pId (passes res))) =
        (''meta-viewport'' \<notin> set (map vId (violations res)))) \<and>
     ((''page-has-heading-one'' \<in> set (map pId (passes res))) = (length (h1s doc) = 1)) \<and>
     ((\<exists>e \<in> set (formElements doc). \<not> skippedType e) \<and>
        ''label'' \<notin> set (map vId (violations res)) \<longrightarrow>
        ''form-labels'' \<in> set (map pId (passes res))) \<and>
     (formElements doc = [] \<longrightarrow>
        ''form-labels'' \<notin> set (map pId (passes res)) \<and>
        ''label'' \<notin> set (map vId (violations res))) \<and>
     ((\<forall>e \<in> set (formElements doc). skippedType e) \<longrightarrow>
        ''label'' \<notin> set (map vId (violations res))) \<and>
     (images doc = [] \<longrightarrow> ''image-alt'' \<notin> set (map vId (violations res))) \<and>
     (buttons doc = [] \<longrightarrow> ''button-name'' \<notin> set (map vId (violations res))) \<and>
     (links doc = [] \<longrightarrow> ''link-name'' \<notin> set (map vId (violations res))) \<and>
     (headings doc = [] \<longrightarrow> ''heading-order'' \<notin> set (map vId (violations res))) \<and>
     (tables doc = [] \<longrightarrow> ''table-headers'' \<notin> set (map vId (violations res))) \<and>
     set (map pId (passes res)) \<subseteq>
       {''image-alt'', ''document-title'', ''html-has-lang'', ''page-has-heading-one'',
        ''meta-viewport'', ''form-labels'', ''button-names'', ''link-names'',
        ''heading-structure''}"
    unfolding P(1-9) V
    using P(10) fl ne no_elements_no_findings [of doc] only_skipped_no_findings [where doc = doc and q = q]
    by blast
qed

lemma run_empty_page:
  "isReport (runAccessibilityChecks q emptyPage) \<and>
   formElements emptyPage = [] \<and> images emptyPage = [] \<and> buttons emptyPage = [] \<and>
   links emptyPage = [] \<and> headings emptyPage = [] \<and> tables emptyPage = []"
  by code_simp

lemma run_hidden_input:
  "isReport (runAccessibilityChecks q (page [hiddenInput])) \<and>
   list_all skippedType (formElements (page [hiddenInput]))"
  by code_simp

theorem pass_emission_witness:
  "(\<exists>res. runAccessibilityChecks strictEngine (page [labelledInput]) = Inr res \<and>
          list_ex (\<lambda>e. \<not> skippedType e) (formElements (page [labelledInput])) \<and>
          ''label'' \<notin> set (map vId (violations res)) \<and>
          ''form-labels'' \<in> set (map pId (passes res))) \<and>
   (\<exists>res. runAccessibilityChecks strictEngine emptyPage = Inr res \<and>
          formElements emptyPage = [] \<and> images emptyPage = [] \<and> buttons emptyPage = [] \<and>
          links emptyPage = [] \<and> headings emptyPage = [] \<and> tables emptyPage = [] \<and>
          ''form-labels'' \<notin> set (map pId (passes res)) \<and>
          ''image-alt'' \<notin> set (map pId (passes res)) \<and>
          ''table-headers'' \<notin> set (map pId (passes res)) \<and>
          ''table-headers'' \<notin> set (map vId (violations res)) \<and>
          ''image-alt'' \<notin> set (map vId (violations res)) \<and>
          ''heading-order'' \<notin> set (map vId (violations res))) \<and>
   (\<exists>res. runAccessibilityChecks strictEngine (page [hiddenInput]) = Inr res \<and>
          list_all skippedType (formElements (page [hiddenInput])) \<and>
          ''label'' \<notin> set (map vId (violations res)))"
proof -
  obtain r1 where r1: "runAccessibilityChecks strictEngine (page [labelledInput]) = Inr r1"
    using run_labelled_input [where q = strictEngine] isReport_obtain by blast
  have e1: "list_ex (\<lambda>e. \<not> skippedType e) (formElements (page [labelledInput]))"
    using run_labelled_input [where q = strictEngine] by simp
  have v1: "''label'' \<notin> set (map vId (violations r1))"
    using run_labelled_input [where q = strictEngine] by (simp add: violationIds_def r1)
  have a: "''form-labels'' \<in> set (map pId (passes r1))"
    using pass_emission [where doc = "page [labelledInput]" and res = r1 and q = strictEngine] r1 e1 v1
    unfolding list_ex_iff by blast
  obtain r2 where r2: "runAccessibilityChecks strictEngine emptyPage = Inr r2"
    using run_empty_page [where q = strictEngine] isReport_obtain by blast
  have b: "''form-labels'' \<notin> set (map pId (passes r2)) \<and>
          ''image-alt'' \<notin> set (map pId (passes r2)) \<and>
          ''table-headers'' \<notin> set (map pId (passes r2)) \<and>
          ''table-headers'' \<notin> set (map vId (violations r2)) \<and>
          ''image-alt'' \<notin> set (map vId (violations r2)) \<and>
          ''heading-order'' \<notin> set (map vId (violations r2))"
    using pass_emission [where doc = emptyPage and res = r2 and q = strictEngine] r2 run_empty_page [where q = strictEngine] by auto
  obtain r3 where r3: "runAccessibilityChecks strictEngine (page [hiddenInput]) = Inr r3"
    using run_hidden_input [where q = strictEngine] isReport_obtain by blast
  have e3: "list_all skippedType (formElements (page [hiddenInput]))"
    using run_hidden_input [where q = strictEngine] by simp
  have c: "''label'' \<notin> set (map vId (violations r3))"
    using pass_emission [where doc = "page [hiddenInput]" and res = r3 and q = strictEngine] r3 e3
    unfolding list_all_iff by blast
  show ?thesis using r1 e1 v1 a r2 run_empty_page [where q = strictEngine] b r3 e3 c by blast
qed

subsection \<open>Errors and degraded input\<close>















subsection \<open>Links with the same text\<close>

lemma find_append:
  "find P (xs @ ys) = (case find P xs of None \<Rightarrow> find P ys | Some x \<Rightarrow> Some x)"
  by (induction xs) auto

lemma truthy_Some: "truthy a \<Longrightarrow> \<exists>t. a = Some t \<and> t \<noteq> []"
  by (cases a) auto

lemma linkStep_same:
  assumes inv: "linkInv pre st"
  shows "linkInv (pre @ [l]) (linkStep st (n, l)) \<and>
         map html (linksWithSameText (linkStep st (n, l))) =
           map html (linksWithSameText st) @
           (if conflictsWithFirst pre l then [OuterHTML l] else [])"
proof (cases "truthy (linkAccessibleText l)")
  case False
  have a: "linkStep st (n, l) = st\<lparr>linksWithoutText := linksWithoutText st @
                [\<lparr>html = OuterHTML l, target = [nthChild ''a'' n],
                  failureSummary = ''Link does not have accessible text''\<rparr>]\<rparr>"
    using False by (simp add: linkStep.simps Let_def)
  have nf: "\<And>t. t \<noteq> [] \<Longrightarrow> linkAccessibleText l \<noteq> Some t" using False by auto
  have "linkInv (pre @ [l]) (linkStep st (n, l))"
    using inv nf unfolding a linkInv_def by (auto simp: find_append split: option.splits)
  moreover have "\<not> conflictsWithFirst pre l" using False by (simp add: conflictsWithFirst_def)
  ultimately show ?thesis unfolding a by simp
next
  case True
  then obtain t where t: "linkAccessibleText l = Some t" "t \<noteq> []" using truthy_Some by blast
  define st1 where "st1 = (if toLowerCase t \<in> set poorLinkPhrases
                      then st\<lparr>linksWithPoorText := linksWithPoorText st @
                             [\<lparr>html = OuterHTML l,
                               target = [nthChild ''a'' n],
                               failureSummary =
                                 ''Link text '' @ [CHR 0x22] @ t @ [CHR 0x22] @
                                 '' is not descriptive''\<rparr>]\<rparr>
                      else st)"
  have s1: "linkTexts st1 = linkTexts st" "linksWithSameText st1 = linksWithSameText st"
    by (simp_all add: st1_def)
  have lt: "linkTexts st t = map_option (\<lambda>f. getAttribute f ''href'')
              (find (\<lambda>x. linkAccessibleText x = Some t) pre)"
    using inv t(2) by (simp add: linkInv_def)
  show ?thesis
  proof (cases "find (\<lambda>x. linkAccessibleText x = Some t) pre")
    case None
    then have step: "linkStep st (n, l) = st1\<lparr>linkTexts := (linkTexts st1)(t \<mapsto> getAttribute l ''href'')\<rparr>"
      using True t lt s1 by (simp add: linkStep.simps Let_def st1_def)
    have "linkInv (pre @ [l]) (linkStep st (n, l))"
      unfolding step linkInv_def
      using inv None t s1 by (auto simp: linkInv_def find_append split: option.splits)
    moreover have "\<not> conflictsWithFirst pre l"
      using None t by (simp add: conflictsWithFirst_def)
    ultimately show ?thesis unfolding step using s1 by simp
  next
    case (Some f)
    then have ex: "linkTexts st1 t = Some (getAttribute f ''href'')" using lt s1 by simp
    have step: "linkStep st (n, l) =
       (if getAttribute f ''href'' \<noteq> getAttribute l ''href''
        then st1\<lparr>linksWithSameText := linksWithSameText st1 @
                           [\<lparr>html = OuterHTML l,
                             target = [nthChild ''a'' n],
                             failureSummary =
                               ''Multiple links with same text '' @ [CHR 0x22] @ t @ [CHR 0x22] @
                               '' lead to different destinations''\<rparr>]\<rparr>
        else st1)"
      using True t ex by (simp add: linkStep.simps Let_def st1_def)
    have "linkInv (pre @ [l]) (linkStep st (n, l))"
      unfolding step linkInv_def
      using inv s1 Some t by (auto simp: linkInv_def find_append split: option.splits)
    moreover have "conflictsWithFirst pre l = (getAttribute f ''href'' \<noteq> getAttribute l ''href'')"
      using Some t True by (simp add: conflictsWithFirst_def)
    ultimately show ?thesis unfolding step using s1 by simp
  qed
qed

lemma linkFold_same:
  "linkInv pre st \<Longrightarrow>
   map html (linksWithSameText (foldl linkStep st (enumerate n rest))) =
   map html (linksWithSameText st) @ map OuterHTML (sameTextFlagged pre rest)"
proof (induction rest arbitrary: pre st n)
  case Nil
  then show ?case by simp
next
  case (Cons l rest)
  have inv: "linkInv (pre @ [l]) (linkStep st (n, l))"
    and one: "map html (linksWithSameText (linkStep st (n, l))) =
           map html (linksWithSameText st) @
           (if conflictsWithFirst pre l then [OuterHTML l] else [])"
    using linkStep_same [OF Cons.prems] by blast+
  show ?case using Cons.IH [OF inv, of "Suc n"] one by simp
qed

text \<open>The list \<open>linksWithSameText\<close> follows the rule: it holds, in document order,
  the links that have accessible text and whose \<open>href\<close> differs from the
  \<open>href\<close> of the first earlier link with the same accessible text.\<close>

lemma linksWithSameText_spec:
  "map html (linksWithSameText (linkLoop doc)) = map OuterHTML (sameTextFlagged [] (links doc))"
proof -
  have "linkInv [] \<lparr>linksWithoutText = [], linksWithPoorText = [], linksWithSameText = [],
        linkTexts = Map.empty\<rparr>" by (simp add: linkInv_def)
  from linkFold_same [OF this] show ?thesis by (simp add: linkLoop_def)
qed

text \<open>
  Claim C1, on the code. For a page with two links that both read "Click here" and lead
  to different addresses, the loop over the links puts the second link, and only it,
  into \<open>linksWithSameText\<close>. The list is not pushed: the run reports the single
  violation link-text-quality, with both links, and no run of any document reports a
  violation with the id link-same-text-diff-target.
\<close>

theorem same_text_links_not_reported:
  "map (\<lambda>n. (html n, target n))
     (linksWithSameText (linkLoop (page [clickHere ''/a'', clickHere ''/b'']))) =
     [(OuterHTML (clickHere ''/b''), [''a:nth-child(2)''])] \<and>
   isReport (runAccessibilityChecks q (page [clickHere ''/a'', clickHere ''/b''])) \<and>
   violationIds (runAccessibilityChecks q (page [clickHere ''/a'', clickHere ''/b''])) =
     [''link-text-quality''] \<and>
   findingsOf ''link-text-quality''
     (runAccessibilityChecks q (page [clickHere ''/a'', clickHere ''/b''])) =
     [[(OuterHTML (clickHere ''/a''), [''a:nth-child(1)'']),
       (OuterHTML (clickHere ''/b''), [''a:nth-child(2)''])]] \<and>
   (\<forall>doc. ''link-same-text-diff-target'' \<notin> set (violationIds (runAccessibilityChecks q doc)))"
proof -
  have a: "map (\<lambda>n. (html n, target n))
     (linksWithSameText (linkLoop (page [clickHere ''/a'', clickHere ''/b'']))) =
     [(OuterHTML (clickHere ''/b''), [''a:nth-child(2)''])] \<and>
   isReport (runAccessibilityChecks q (page [clickHere ''/a'', clickHere ''/b''])) \<and>
   violationIds (runAccessibilityChecks q (page [clickHere ''/a'', clickHere ''/b''])) =
     [''link-text-quality''] \<and>
   findingsOf ''link-text-quality''
     (runAccessibilityChecks q (page [clickHere ''/a'', clickHere ''/b''])) =
     [[(OuterHTML (clickHere ''/a''), [''a:nth-child(1)'']),
       (OuterHTML (clickHere ''/b''), [''a:nth-child(2)''])]]"
    by code_simp
  have b: "''link-same-text-diff-target'' \<notin> set (violationIds (runAccessibilityChecks q doc))" for doc
  proof (cases "runAccessibilityChecks q doc")
    case (Inl e)
    then show ?thesis by (simp add: violationIds_def)
  next
    case (Inr res)
    then show ?thesis using violationIds_members(10) [OF Inr] by (simp add: violationIds_def)
  qed
  show ?thesis using a b by blast
qed

end
